theory Spec2Isabelle
  imports Main
begin

section \<open>Go standard library: strings and formatting\<close>

text \<open>
  Go strings are byte sequences; \<open>string\<close> (a list of 8-bit characters) models them.
  An \<open>error\<close> made by \<open>fmt.Errorf\<close> is modelled by its message, which is what
  \<open>%w\<close> splices into the wrapping message.
\<close>

type_synonym error = string

text \<open>\<open>strings.HasPrefix\<close>: \<open>len(s) >= len(prefix) && s[:len(prefix)] == prefix\<close>.\<close>

definition HasPrefix :: "string \<Rightarrow> string \<Rightarrow> bool" where
  "HasPrefix s p = (length p \<le> length s \<and> take (length p) s = p)"

text \<open>\<open>strings.Contains\<close>: whether \<open>substr\<close> occurs at some offset of \<open>s\<close>.\<close>

fun Contains :: "string \<Rightarrow> string \<Rightarrow> bool" where
  "Contains [] substr = (substr = [])"
| "Contains (c # cs) substr = (HasPrefix (c # cs) substr \<or> Contains cs substr)"

text \<open>
  \<open>strings.Split(s, sep)\<close> for a one-byte separator: the pieces between the
  separators, one more than there are separators; \<open>Split("", "/")\<close> is \<open>[""]\<close>.
  The scan keeps the piece read so far and closes it at each separator and at the end.
\<close>

fun splitFrom :: "string \<Rightarrow> string \<Rightarrow> char \<Rightarrow> string list" where
  "splitFrom piece [] sep = [piece]"
| "splitFrom piece (c # cs) sep =
     (if c = sep then piece # splitFrom [] cs sep else splitFrom (piece @ [c]) cs sep)"

definition Split :: "string \<Rightarrow> char \<Rightarrow> string list" where
  "Split s sep = splitFrom [] s sep"

text \<open>\<open>strings.Join\<close>.\<close>

fun Join :: "string list \<Rightarrow> string \<Rightarrow> string" where
  "Join [] sep = []"
| "Join [x] sep = x"
| "Join (x # y # ys) sep = x @ sep @ Join (y # ys) sep"

text \<open>The verb \<open>%d\<close> of \<open>fmt\<close> on an \<open>int\<close>: decimal digits, with a sign when negative.\<close>

definition digit :: "nat \<Rightarrow> char" where
  "digit d = ''0123456789'' ! d"

function formatNat :: "nat \<Rightarrow> string" where
  "formatNat n = (if n < 10 then [digit n] else formatNat (n div 10) @ [digit (n mod 10)])"
  by pat_completeness auto
termination
  by (relation "measure (\<lambda>n. n)") auto

declare formatNat.simps [simp del]

definition formatInt :: "int \<Rightarrow> string" where
  "formatInt i = (if i < 0 then CHR ''-'' # formatNat (nat (- i)) else formatNat (nat i))"

section \<open>Data model\<close>

text \<open>
  \<open>model.Package\<close>: the fields of the package descriptor that the validator reads
  (\<open>pkg.RegistryBaseURL\<close>, \<open>pkg.Identifier\<close>, \<open>pkg.Version\<close>; \<open>RegistryType\<close> is set by
  the callers and never read here).
\<close>

record Package =
  RegistryType :: string
  RegistryBaseURL :: string
  Identifier :: string
  Version :: string

text \<open>\<open>pkg/model/constants.go\<close>: the registry base URLs.\<close>

definition RegistryURLDocker :: string where "RegistryURLDocker = ''https://docker.io''"
definition RegistryURLGHCR :: string where "RegistryURLGHCR = ''https://ghcr.io''"
definition RegistryURLGAR :: string where "RegistryURLGAR = ''https://artifactregistry.googleapis.com''"
definition RegistryURLGCR :: string where "RegistryURLGCR = ''https://gcr.io''"
definition RegistryURLECR :: string where "RegistryURLECR = ''https://public.ecr.aws''"
definition RegistryURLACR :: string where "RegistryURLACR = ''https://azurecr.io''"
definition RegistryURLQuay :: string where "RegistryURLQuay = ''https://quay.io''"
definition RegistryURLGitLabCR :: string where "RegistryURLGitLabCR = ''https://registry.gitlab.com''"
definition RegistryURLDockerHub :: string where "RegistryURLDockerHub = ''https://hub.docker.com''"
definition RegistryURLJFrogCR :: string where "RegistryURLJFrogCR = ''https://jfrog.io''"
definition RegistryURLHarborCR :: string where "RegistryURLHarborCR = ''https://goharbor.io''"
definition RegistryURLAlibabaACR :: string where "RegistryURLAlibabaACR = ''https://cr.console.aliyun.com''"
definition RegistryURLIBMCR :: string where "RegistryURLIBMCR = ''https://icr.io''"
definition RegistryURLOracleCR :: string where "RegistryURLOracleCR = ''https://container-registry.oracle.com''"
definition RegistryURLDigitalOceanCR :: string where "RegistryURLDigitalOceanCR = ''https://registry.digitalocean.com''"

definition dockerIoAPIBaseURL :: string where
  "dockerIoAPIBaseURL = ''https://registry-1.docker.io''"

text \<open>\<open>OCIAuthResponse\<close>, \<open>OCIManifest\<close> and \<open>OCIImageConfig\<close>, the decoded JSON bodies.
  The two anonymous structs \<open>struct { Digest string }\<close> are one type in Go and one record
  here; a Go map that is \<open>nil\<close> or lacks a key is a map giving \<open>None\<close>.\<close>

record OCIAuthResponse =
  Token :: string

record Descriptor =
  Digest :: string

record OCIManifest =
  Manifests :: "Descriptor list"
  Config :: Descriptor

record ImageConfig =
  Labels :: "string \<rightharpoonup> string"

record OCIImageConfig =
  Config :: ImageConfig

section \<open>HTTP: requests, responses and the outside world\<close>

text \<open>
  \<open>http.Request\<close> and \<open>http.Response\<close>, as far as the validator sets and reads them.
  Every header is set once, with a key already in canonical form, so a header is a map
  from the key to its value.
\<close>

record Request =
  Method :: string
  URL :: string
  Header :: "string \<rightharpoonup> string"

record Response =
  StatusCode :: int
  Body :: string

text \<open>
  What the validator cannot decide by itself is a parameter: whether
  \<open>http.NewRequestWithContext\<close> rejects a URL (or a nil context), what the network answers
  to a request (an error of the transport, or a response), given the requests already
  issued, and what \<open>encoding/json\<close> makes of a body for each of the three target types.
\<close>

record env =
  newRequestError :: "string \<Rightarrow> error option"
  roundTrip :: "Request list \<Rightarrow> Request \<Rightarrow> error + Response"
  decodeAuth :: "string \<Rightarrow> error + OCIAuthResponse"
  decodeManifest :: "string \<Rightarrow> error + OCIManifest"
  decodeConfig :: "string \<Rightarrow> error + OCIImageConfig"

text \<open>The effects of a run: the requests sent by \<open>client.Do\<close>, in order and as they go
  out, and the lines written by \<open>log.Printf\<close>.\<close>

record state =
  sent :: "Request list"
  logged :: "string list"

definition NewRequestWithContext :: "env \<Rightarrow> string \<Rightarrow> string \<Rightarrow> error + Request" where
  "NewRequestWithContext w method url =
     (case newRequestError w url of
        Some e \<Rightarrow> Inl e
      | None \<Rightarrow> Inr \<lparr>Method = method, URL = url, Header = Map.empty\<rparr>)"

definition Header_Set :: "Request \<Rightarrow> string \<Rightarrow> string \<Rightarrow> Request" where
  "Header_Set req k v = req\<lparr>Header := (Header req)(k \<mapsto> v)\<rparr>"

definition Header_Get :: "Request \<Rightarrow> string \<Rightarrow> string" where
  "Header_Get req k = (case Header req k of None \<Rightarrow> [] | Some v \<Rightarrow> v)"

subsection \<open>The user information of a URL (\<open>net/url\<close>)\<close>

text \<open>
  \<open>http.NewRequestWithContext\<close> parses the URL, and \<open>client.Do\<close> reads \<open>req.URL.User\<close>.
  What follows is the part of \<open>url.Parse\<close> that decides it. \<open>getScheme\<close> scans the
  scheme: letters anywhere, digits and \<open>+ - .\<close> after the first byte, up to a colon; a
  URL that starts with a colon is an error, any other byte means there is no scheme.
\<close>

definition letters :: string where
  "letters = ''abcdefghijklmnopqrstuvwxyzABCDEFGHIJKLMNOPQRSTUVWXYZ''"

definition digits :: string where
  "digits = ''0123456789''"

fun schemeFrom :: "string \<Rightarrow> string \<Rightarrow> (string \<times> string) option" where
  "schemeFrom scanned [] = Some ([], scanned)"
| "schemeFrom scanned (c # cs) =
     (if c \<in> set letters then schemeFrom (scanned @ [c]) cs
      else if c \<in> set digits \<or> c = CHR ''+'' \<or> c = CHR ''-'' \<or> c = CHR ''.''
      then (if scanned = [] then Some ([], c # cs) else schemeFrom (scanned @ [c]) cs)
      else if c = CHR '':''
      then (if scanned = [] then None else Some (scanned, cs))
      else Some ([], scanned @ c # cs))"

definition getScheme :: "string \<Rightarrow> (string \<times> string) option" where
  "getScheme rawURL = schemeFrom [] rawURL"

text \<open>\<open>unescape\<close> in the mode of user names and passwords: \<open>%\<close> and two hexadecimal
  digits stand for a byte, and a \<open>%\<close> followed by anything else is an error.\<close>

definition hexDigits :: string where
  "hexDigits = ''0123456789abcdefABCDEF''"

definition unhex :: "char \<Rightarrow> nat" where
  "unhex c =
     (if c \<in> set digits then of_char c - 48
      else if c \<in> set ''abcdef'' then of_char c - 97 + 10
      else of_char c - 65 + 10)"

fun unescape :: "string \<Rightarrow> string option" where
  "unescape [] = Some []"
| "unescape (c # cs) =
     (if c = CHR ''%''
      then (case cs of
              h1 # h2 # rest \<Rightarrow>
                if h1 \<in> set hexDigits \<and> h2 \<in> set hexDigits
                then map_option (\<lambda>t. char_of (unhex h1 * 16 + unhex h2) # t) (unescape rest)
                else None
            | _ \<Rightarrow> None)
      else map_option (\<lambda>t. c # t) (unescape cs))"

text \<open>\<open>validUserinfo\<close>: letters, digits and a fixed set of punctuation.\<close>

definition validUserinfo :: "string \<Rightarrow> bool" where
  "validUserinfo s =
     list_all (\<lambda>c. c \<in> set letters \<or> c \<in> set digits \<or> c \<in> set ''-._:~!$&()*+,;=%@''
                     \<or> c = CHR 0x27) s"

text \<open>
  \<open>parseAuthority\<close>, as far as the user goes: the user information is what stands before
  the last \<open>@\<close> of the authority, the user name what stands before its first colon and
  the password what stands behind it (empty when there is no colon). Where
  \<open>parseAuthority\<close> returns an error (user information that is not valid or cannot be
  unescaped) the result is \<open>None\<close>: no request is created from such a URL.
\<close>

definition parseAuthorityUser :: "string \<Rightarrow> (string \<times> string) option" where
  "parseAuthorityUser authority =
     (if CHR ''@'' \<in> set authority
      then (let userinfo = rev (tl (dropWhile (\<lambda>c. c \<noteq> CHR ''@'') (rev authority))) in
            if validUserinfo userinfo
            then (if CHR '':'' \<in> set userinfo
                  then (case (unescape (takeWhile (\<lambda>c. c \<noteq> CHR '':'') userinfo),
                              unescape (tl (dropWhile (\<lambda>c. c \<noteq> CHR '':'') userinfo))) of
                          (Some username, Some password) \<Rightarrow> Some (username, password)
                        | _ \<Rightarrow> None)
                  else (case unescape userinfo of
                          Some username \<Rightarrow> Some (username, [])
                        | None \<Rightarrow> None))
            else None)
      else None)"

text \<open>
  \<open>url.Parse\<close>, as far as the user goes: the fragment is cut off at the first \<open>#\<close>, the
  scheme is split off, the query is cut off at the first \<open>?\<close>, and when what is left
  starts with \<open>//\<close> (but not with \<open>///\<close> when there is no scheme) the authority runs up to
  the next slash. The result is the user name and the password of \<open>URL.User\<close>, or \<open>None\<close>
  when \<open>URL.User\<close> is nil.
\<close>

definition urlUser :: "string \<Rightarrow> (string \<times> string) option" where
  "urlUser rawURL =
     (case getScheme (takeWhile (\<lambda>c. c \<noteq> CHR ''#'') rawURL) of
        None \<Rightarrow> None
      | Some (scheme, afterScheme) \<Rightarrow>
          (let rest = takeWhile (\<lambda>c. c \<noteq> CHR ''?'') afterScheme in
           if scheme = [] \<and> HasPrefix rest ''///'' then None
           else if HasPrefix rest ''//''
           then parseAuthorityUser (takeWhile (\<lambda>c. c \<noteq> CHR ''/'') (drop 2 rest))
           else None))"

subsection \<open>Basic credentials (\<open>encoding/base64\<close>, \<open>net/http\<close>)\<close>

text \<open>\<open>base64.StdEncoding.EncodeToString\<close>: three bytes give four characters of the
  standard alphabet, and the last group is padded with \<open>=\<close>.\<close>

definition encodeStd :: string where
  "encodeStd = ''ABCDEFGHIJKLMNOPQRSTUVWXYZabcdefghijklmnopqrstuvwxyz0123456789+/''"

fun encodeBytes :: "nat list \<Rightarrow> string" where
  "encodeBytes [] = []"
| "encodeBytes [a] =
     [encodeStd ! (a div 4), encodeStd ! (a mod 4 * 16), CHR ''='', CHR ''='']"
| "encodeBytes [a, b] =
     [encodeStd ! (a div 4), encodeStd ! (a mod 4 * 16 + b div 16),
      encodeStd ! (b mod 16 * 4), CHR ''='']"
| "encodeBytes (a # b # c # bs) =
     [encodeStd ! (a div 4), encodeStd ! (a mod 4 * 16 + b div 16),
      encodeStd ! (b mod 16 * 4 + c div 64), encodeStd ! (c mod 64)] @ encodeBytes bs"

definition EncodeToString :: "string \<Rightarrow> string" where
  "EncodeToString s = encodeBytes (map of_char s)"

definition basicAuth :: "string \<Rightarrow> string \<Rightarrow> string" where
  "basicAuth username password = EncodeToString (username @ '':'' @ password)"

subsection \<open>\<open>client.Do\<close>\<close>

text \<open>
  Before a request goes out, the client of \<open>net/http\<close> looks at the URL: when it has user
  information and the request has no \<open>Authorization\<close> header (or an empty one), the header
  is set to \<open>Basic\<close> and the encoded user name and password.
\<close>

definition clientSend :: "Request \<Rightarrow> Request" where
  "clientSend req =
     (case urlUser (URL req) of
        None \<Rightarrow> req
      | Some (username, password) \<Rightarrow>
          if Header_Get req ''Authorization'' = []
          then Header_Set req ''Authorization'' (''Basic '' @ basicAuth username password)
          else req)"

text \<open>
  \<open>client.Do\<close>: the request goes out as the client sends it and is recorded so; the answer
  is what the world gives for the whole exchange (redirects are the client's business),
  an error of the transport or the final response.
\<close>

definition Do :: "env \<Rightarrow> Request \<Rightarrow> state \<Rightarrow> (error + Response) \<times> state" where
  "Do w req s =
     (roundTrip w (sent s) (clientSend req), s\<lparr>sent := sent s @ [clientSend req]\<rparr>)"

definition Printf :: "string \<Rightarrow> state \<Rightarrow> state" where
  "Printf line s = s\<lparr>logged := logged s @ [line]\<rparr>"

section \<open>The validator (internal/validators/registries/oci.go)\<close>

subsection \<open>\<open>parseImageReference\<close>\<close>

definition parseImageReference :: "string \<Rightarrow> error + string \<times> string" where
  "parseImageReference identifier =
     (let parts = Split identifier CHR ''/'' in
      if length parts = 2 then Inr (parts ! 0, parts ! 1)
      else if length parts = 1 then Inr (''library'', parts ! 0)
      else Inl (''invalid image reference: '' @ identifier))"

subsection \<open>\<open>getDockerIoAuthToken\<close>\<close>

definition authURL :: "string \<Rightarrow> string \<Rightarrow> string" where
  "authURL namespace repo =
     ''https://auth.docker.io/token?service=registry.docker.io&scope=repository:''
       @ namespace @ ''/'' @ repo @ '':pull''"

definition getDockerIoAuthToken ::
  "env \<Rightarrow> string \<Rightarrow> string \<Rightarrow> state \<Rightarrow> (error + string) \<times> state" where
  "getDockerIoAuthToken w namespace repo s =
     (case NewRequestWithContext w ''GET'' (authURL namespace repo) of
        Inl e \<Rightarrow> (Inl (''failed to create auth request: '' @ e), s)
      | Inr req \<Rightarrow>
          (case Do w req s of
             (Inl e, s1) \<Rightarrow> (Inl (''failed to request auth token: '' @ e), s1)
           | (Inr resp, s1) \<Rightarrow>
               if StatusCode resp \<noteq> 200
               then (Inl (''auth request failed with status '' @ formatInt (StatusCode resp)), s1)
               else (case decodeAuth w (Body resp) of
                       Inl e \<Rightarrow> (Inl (''failed to parse auth response: '' @ e), s1)
                     | Inr authResp \<Rightarrow> (Inr (Token authResp), s1))))"

subsection \<open>\<open>getSpecificManifest\<close>\<close>

text \<open>The function up to \<open>client.Do\<close>: the request is created, the token is fetched and
  attached when the API base URL is Docker Hub's, and the two fixed headers are set.\<close>

definition specificManifestRequest ::
  "env \<Rightarrow> string \<Rightarrow> string \<Rightarrow> string \<Rightarrow> string \<Rightarrow> state \<Rightarrow> (error + Request) \<times> state" where
  "specificManifestRequest w apiBaseURL namespace repo digest s =
     (case NewRequestWithContext w ''GET''
             (apiBaseURL @ ''/v2/'' @ namespace @ ''/'' @ repo @ ''/manifests/'' @ digest) of
        Inl e \<Rightarrow> (Inl (''failed to create specific manifest request: '' @ e), s)
      | Inr req \<Rightarrow>
          (case (if apiBaseURL = dockerIoAPIBaseURL
                 then (case getDockerIoAuthToken w namespace repo s of
                         (Inl e, s1) \<Rightarrow>
                           (Inl (''failed to authenticate with Docker registry: '' @ e), s1)
                       | (Inr token, s1) \<Rightarrow>
                           (Inr (Header_Set req ''Authorization'' (''Bearer '' @ token)), s1))
                 else (Inr req, s)) of
             (Inl e, s1) \<Rightarrow> (Inl e, s1)
           | (Inr req1, s1) \<Rightarrow>
               (Inr (Header_Set
                       (Header_Set req1 ''Accept'' ''application/vnd.oci.image.manifest.v1+json'')
                       ''User-Agent'' ''MCP-Registry-Validator/1.0''), s1)))"

definition getSpecificManifest ::
  "env \<Rightarrow> string \<Rightarrow> string \<Rightarrow> string \<Rightarrow> string \<Rightarrow> state \<Rightarrow> (error + OCIManifest) \<times> state" where
  "getSpecificManifest w apiBaseURL namespace repo digest s =
     (case specificManifestRequest w apiBaseURL namespace repo digest s of
        (Inl e, s1) \<Rightarrow> (Inl e, s1)
      | (Inr req, s1) \<Rightarrow>
          (case Do w req s1 of
             (Inl e, s2) \<Rightarrow> (Inl (''failed to fetch specific manifest: '' @ e), s2)
           | (Inr resp, s2) \<Rightarrow>
               if StatusCode resp \<noteq> 200
               then (Inl (''specific manifest not found (status: ''
                            @ formatInt (StatusCode resp) @ '')''), s2)
               else (case decodeManifest w (Body resp) of
                       Inl e \<Rightarrow> (Inl (''failed to parse specific manifest: '' @ e), s2)
                     | Inr manifest \<Rightarrow> (Inr manifest, s2))))"

subsection \<open>\<open>getImageConfig\<close>\<close>

definition imageConfigRequest ::
  "env \<Rightarrow> string \<Rightarrow> string \<Rightarrow> string \<Rightarrow> string \<Rightarrow> state \<Rightarrow> (error + Request) \<times> state" where
  "imageConfigRequest w apiBaseURL namespace repo configDigest s =
     (case NewRequestWithContext w ''GET''
             (apiBaseURL @ ''/v2/'' @ namespace @ ''/'' @ repo @ ''/blobs/'' @ configDigest) of
        Inl e \<Rightarrow> (Inl (''failed to create config request: '' @ e), s)
      | Inr req \<Rightarrow>
          (case (if apiBaseURL = dockerIoAPIBaseURL
                 then (case getDockerIoAuthToken w namespace repo s of
                         (Inl e, s1) \<Rightarrow>
                           (Inl (''failed to authenticate with Docker registry: '' @ e), s1)
                       | (Inr token, s1) \<Rightarrow>
                           (Inr (Header_Set req ''Authorization'' (''Bearer '' @ token)), s1))
                 else (Inr req, s)) of
             (Inl e, s1) \<Rightarrow> (Inl e, s1)
           | (Inr req1, s1) \<Rightarrow>
               (Inr (Header_Set
                       (Header_Set req1 ''Accept''
                          ''application/vnd.docker.distribution.manifest.v2+json'')
                       ''User-Agent'' ''MCP-Registry-Validator/1.0''), s1)))"

definition getImageConfig ::
  "env \<Rightarrow> string \<Rightarrow> string \<Rightarrow> string \<Rightarrow> string \<Rightarrow> state \<Rightarrow> (error + OCIImageConfig) \<times> state" where
  "getImageConfig w apiBaseURL namespace repo configDigest s =
     (case imageConfigRequest w apiBaseURL namespace repo configDigest s of
        (Inl e, s1) \<Rightarrow> (Inl e, s1)
      | (Inr req, s1) \<Rightarrow>
          (case Do w req s1 of
             (Inl e, s2) \<Rightarrow> (Inl (''failed to fetch image config: '' @ e), s2)
           | (Inr resp, s2) \<Rightarrow>
               if StatusCode resp \<noteq> 200
               then (Inl (''image config not found (status: ''
                            @ formatInt (StatusCode resp) @ '')''), s2)
               else (case decodeConfig w (Body resp) of
                       Inl e \<Rightarrow> (Inl (''failed to parse image config: '' @ e), s2)
                     | Inr config \<Rightarrow> (Inr config, s2))))"

subsection \<open>\<open>ValidateOCI\<close>\<close>

text \<open>The Go map literal \<open>supportedRegistries\<close>; its keys are pairwise distinct, and a
  lookup is \<open>map_of\<close>.\<close>

definition supportedRegistries :: "(string \<times> string) list" where
  "supportedRegistries =
     [(RegistryURLDocker, dockerIoAPIBaseURL),
      (RegistryURLGHCR, ''https://ghcr.io''),
      (RegistryURLGAR, ''https://artifactregistry.googleapis.com''),
      (RegistryURLGCR, ''https://gcr.io''),
      (RegistryURLECR, ''https://public.ecr.aws''),
      (RegistryURLACR, ''https://azurecr.io''),
      (RegistryURLQuay, ''https://quay.io''),
      (RegistryURLGitLabCR, ''https://registry.gitlab.com''),
      (RegistryURLDockerHub, dockerIoAPIBaseURL),
      (RegistryURLJFrogCR, ''https://jfrog.io''),
      (RegistryURLHarborCR, ''https://goharbor.io''),
      (RegistryURLAlibabaACR, ''https://cr.console.aliyun.com''),
      (RegistryURLIBMCR, ''https://icr.io''),
      (RegistryURLOracleCR, ''https://container-registry.oracle.com''),
      (RegistryURLDigitalOceanCR, ''https://registry.digitalocean.com'')]"

definition supportedList :: "string list" where
  "supportedList =
     [''docker.io'', ''ghcr.io'', ''gcr.io'', ''quay.io'', ''artifactregistry.googleapis.com'']"

text \<open>The lookup in the table and the chain of \<open>else if\<close> behind it: the API base URL
  for a registry base URL (already defaulted), or the error for a registry that is not
  supported.\<close>

definition resolveAPIBaseURL :: "string \<Rightarrow> error + string" where
  "resolveAPIBaseURL baseURL =
     (case map_of supportedRegistries baseURL of
        Some apiBaseURL \<Rightarrow> Inr apiBaseURL
      | None \<Rightarrow>
          if Contains baseURL ''-docker.pkg.dev'' then Inr baseURL
          else if Contains baseURL ''.gcr.io'' then Inr baseURL
          else if Contains baseURL ''.amazonaws.com'' then Inr baseURL
          else if Contains baseURL ''.azurecr.io'' then Inr baseURL
          else if HasPrefix baseURL ''http://127.0.0.1:'' \<or> HasPrefix baseURL ''http://localhost:''
          then Inr baseURL
          else Inl (''unsupported OCI registry: '' @ [CHR 0x27] @ baseURL @ [CHR 0x27]
                      @ ''. Supported registries: '' @ Join supportedList '', ''))"

text \<open>The \<open>switch\<close> that handles authentication for the first manifest request: only its
  first case does anything.\<close>

definition manifestAuth ::
  "env \<Rightarrow> string \<Rightarrow> string \<Rightarrow> string \<Rightarrow> string \<Rightarrow> Request \<Rightarrow> state \<Rightarrow> (error + Request) \<times> state" where
  "manifestAuth w baseURL apiBaseURL namespace repo req s =
     (if apiBaseURL = dockerIoAPIBaseURL
      then (case getDockerIoAuthToken w namespace repo s of
              (Inl e, s1) \<Rightarrow> (Inl (''failed to authenticate with Docker registry: '' @ e), s1)
            | (Inr token, s1) \<Rightarrow> (Inr (Header_Set req ''Authorization'' (''Bearer '' @ token)), s1))
      else if baseURL = RegistryURLGHCR then (Inr req, s)
      else if baseURL = RegistryURLGAR \<or> Contains baseURL ''-docker.pkg.dev'' then (Inr req, s)
      else if baseURL = RegistryURLQuay then (Inr req, s)
      else if baseURL = RegistryURLGitLabCR then (Inr req, s)
      else if Contains baseURL ''.gcr.io'' then (Inr req, s)
      else if Contains baseURL ''public.ecr.aws'' then (Inr req, s)
      else (Inr req, s))"

text \<open>\<open>ValidateOCI\<close> returns early at many places. It is modelled as a chain of stages;
  each stage runs the one before it and either returns from \<open>ValidateOCI\<close>
  (\<open>Return\<close>, with the error or with \<open>None\<close> for \<open>nil\<close>) or goes on with the local
  variables that the rest of the function reads (\<open>Next\<close>).\<close>

datatype 'a step = Return "error option" | Next 'a

text \<open>Up to the first \<open>client.Do\<close>: the default for an empty base URL, the registry
  lookup, the image reference, the manifest request, its authentication and headers.\<close>

definition manifestRequest ::
  "env \<Rightarrow> Package \<Rightarrow> state \<Rightarrow> (string \<times> string \<times> string \<times> string \<times> Request) step \<times> state" where
  "manifestRequest w pkg0 s =
     (let pkg = (if RegistryBaseURL pkg0 = [] then pkg0\<lparr>RegistryBaseURL := RegistryURLDocker\<rparr>
                 else pkg0) in
      case resolveAPIBaseURL (RegistryBaseURL pkg) of
        Inl e \<Rightarrow> (Return (Some e), s)
      | Inr apiBaseURL \<Rightarrow>
          (case parseImageReference (Identifier pkg) of
             Inl e \<Rightarrow> (Return (Some (''invalid OCI image reference: '' @ e)), s)
           | Inr (namespace, repo) \<Rightarrow>
               (let tag = Version pkg in
                case NewRequestWithContext w ''GET''
                       (apiBaseURL @ ''/v2/'' @ namespace @ ''/'' @ repo @ ''/manifests/'' @ tag) of
                  Inl e \<Rightarrow> (Return (Some (''failed to create manifest request: '' @ e)), s)
                | Inr req \<Rightarrow>
                    (case manifestAuth w (RegistryBaseURL pkg) apiBaseURL namespace repo req s of
                       (Inl e, s1) \<Rightarrow> (Return (Some e), s1)
                     | (Inr req1, s1) \<Rightarrow>
                         (Next (apiBaseURL, namespace, repo, tag,
                            Header_Set
                              (Header_Set req1 ''Accept''
                                 ''application/vnd.docker.distribution.manifest.v2+json,application/vnd.oci.image.manifest.v1+json'')
                              ''User-Agent'' ''MCP-Registry-Validator/1.0''), s1)))))"

text \<open>Up to the decoded top-level manifest: the request is sent and the status of the
  response is classified.\<close>

definition fetchManifest ::
  "env \<Rightarrow> Package \<Rightarrow> state \<Rightarrow> (string \<times> string \<times> string \<times> string \<times> OCIManifest) step \<times> state" where
  "fetchManifest w pkg s =
     (case manifestRequest w pkg s of
        (Return r, s1) \<Rightarrow> (Return r, s1)
      | (Next (apiBaseURL, namespace, repo, tag, req), s1) \<Rightarrow>
          (case Do w req s1 of
             (Inl e, s2) \<Rightarrow> (Return (Some (''failed to fetch OCI manifest: '' @ e)), s2)
           | (Inr resp, s2) \<Rightarrow>
               if StatusCode resp = 404 \<or> StatusCode resp = 401
               then (Return (Some (''OCI image '' @ [CHR 0x27] @ namespace @ ''/'' @ repo @ '':''
                                     @ tag @ [CHR 0x27] @ '' not found (status: ''
                                     @ formatInt (StatusCode resp) @ '')'')), s2)
               else if StatusCode resp = 429
               then (Return None,
                     Printf (''Warning: Rate limited when accessing OCI image '' @ [CHR 0x27]
                               @ namespace @ ''/'' @ repo @ '':'' @ tag @ [CHR 0x27]
                               @ ''. Skipping validation.'') s2)
               else if StatusCode resp \<noteq> 200
               then (Return (Some (''failed to fetch OCI manifest (status: ''
                                     @ formatInt (StatusCode resp) @ '')'')), s2)
               else (case decodeManifest w (Body resp) of
                       Inl e \<Rightarrow> (Return (Some (''failed to parse OCI manifest: '' @ e)), s2)
                     | Inr manifest \<Rightarrow> (Next (apiBaseURL, namespace, repo, tag, manifest), s2))))"

text \<open>Up to the config digest: a manifest list is followed to the manifest of its first
  entry, and an empty digest is an error.\<close>

definition resolveConfigDigest ::
  "env \<Rightarrow> Package \<Rightarrow> state \<Rightarrow> (string \<times> string \<times> string \<times> string \<times> string) step \<times> state" where
  "resolveConfigDigest w pkg s =
     (case fetchManifest w pkg s of
        (Return r, s2) \<Rightarrow> (Return r, s2)
      | (Next (apiBaseURL, namespace, repo, tag, manifest), s2) \<Rightarrow>
          (case (if length (Manifests manifest) > 0
                 then (case getSpecificManifest w apiBaseURL namespace repo
                              (Digest (Manifests manifest ! 0)) s2 of
                         (Inl e, s3) \<Rightarrow> (Inl (''failed to get specific manifest: '' @ e), s3)
                       | (Inr specificManifest, s3) \<Rightarrow>
                           (Inr (Digest (OCIManifest.Config specificManifest)), s3))
                 else (Inr (Digest (OCIManifest.Config manifest)), s2)) of
             (Inl e, s3) \<Rightarrow> (Return (Some e), s3)
           | (Inr configDigest, s3) \<Rightarrow>
               if configDigest = []
               then (Return (Some (''unable to determine image config digest for '' @ [CHR 0x27]
                                     @ namespace @ ''/'' @ repo @ '':'' @ tag @ [CHR 0x27])), s3)
               else (Next (apiBaseURL, namespace, repo, tag, configDigest), s3)))"

text \<open>Up to the image config that carries the labels.\<close>

definition fetchImageConfig ::
  "env \<Rightarrow> Package \<Rightarrow> state \<Rightarrow> (string \<times> string \<times> string \<times> OCIImageConfig) step \<times> state" where
  "fetchImageConfig w pkg s =
     (case resolveConfigDigest w pkg s of
        (Return r, s3) \<Rightarrow> (Return r, s3)
      | (Next (apiBaseURL, namespace, repo, tag, configDigest), s3) \<Rightarrow>
          (case getImageConfig w apiBaseURL namespace repo configDigest s3 of
             (Inl e, s4) \<Rightarrow> (Return (Some (''failed to get image config: '' @ e)), s4)
           | (Inr config, s4) \<Rightarrow> (Next (namespace, repo, tag, config), s4)))"

text \<open>The whole function: the label is looked up and compared with the server name.\<close>

definition ValidateOCI :: "env \<Rightarrow> Package \<Rightarrow> string \<Rightarrow> state \<Rightarrow> error option \<times> state" where
  "ValidateOCI w pkg serverName s =
     (case fetchImageConfig w pkg s of
        (Return r, s4) \<Rightarrow> (r, s4)
      | (Next (namespace, repo, tag, config), s4) \<Rightarrow>
          (case Labels (Config config) ''io.modelcontextprotocol.server.name'' of
             None \<Rightarrow>
               (Some (''OCI image '' @ [CHR 0x27] @ namespace @ ''/'' @ repo @ '':'' @ tag
                        @ [CHR 0x27]
                        @ '' is missing required annotation. Add this to your Dockerfile: LABEL io.modelcontextprotocol.server.name=''
                        @ [CHR 0x22] @ serverName @ [CHR 0x22]), s4)
           | Some mcpName \<Rightarrow>
               if mcpName \<noteq> serverName
               then (Some (''OCI image ownership validation failed. Expected annotation ''
                             @ [CHR 0x27] @ ''io.modelcontextprotocol.server.name'' @ [CHR 0x27]
                             @ '' = '' @ [CHR 0x27] @ serverName @ [CHR 0x27] @ '', got ''
                             @ [CHR 0x27] @ mcpName @ [CHR 0x27]), s4)
               else (None, s4)))"

section \<open>Observing a run\<close>

text \<open>The request that \<open>getDockerIoAuthToken\<close> creates: a GET of the token endpoint
  with no header at all.\<close>

definition tokenRequest :: "string \<Rightarrow> string \<Rightarrow> Request" where
  "tokenRequest namespace repo =
     \<lparr>Method = ''GET'', URL = authURL namespace repo, Header = Map.empty\<rparr>"

text \<open>The state after some more requests have been sent.\<close>

definition sends :: "state \<Rightarrow> Request list \<Rightarrow> state" where
  "sends s reqs = s\<lparr>sent := sent s @ reqs\<rparr>"

text \<open>A fetch of the registry API: a GET of a manifest or of a blob of the image,
  with the user agent of the validator.\<close>

definition fetchRequest :: "string \<Rightarrow> string \<Rightarrow> string \<Rightarrow> Request \<Rightarrow> bool" where
  "fetchRequest apiBaseURL namespace repo q =
     (Method q = ''GET''
      \<and> (HasPrefix (URL q) (apiBaseURL @ ''/v2/'' @ namespace @ ''/'' @ repo @ ''/manifests/'')
         \<or> HasPrefix (URL q) (apiBaseURL @ ''/v2/'' @ namespace @ ''/'' @ repo @ ''/blobs/''))
      \<and> Header q ''User-Agent'' = Some ''MCP-Registry-Validator/1.0'')"

text \<open>What a request of a run may look like, by the API base URL. Under Docker Hub's it
  is the token request or a fetch that carries a bearer token. Under any other it is a
  fetch, and its \<open>Authorization\<close> header is what the client makes of the user information
  of the URL: none without user information, \<open>Basic\<close> credentials with it.\<close>

definition authorizedFor :: "string \<Rightarrow> string \<Rightarrow> string \<Rightarrow> Request \<Rightarrow> bool" where
  "authorizedFor apiBaseURL namespace repo q =
     (if apiBaseURL = dockerIoAPIBaseURL
      then q = tokenRequest namespace repo
           \<or> (fetchRequest apiBaseURL namespace repo q
               \<and> (\<exists>token. Header q ''Authorization'' = Some (''Bearer '' @ token)))
      else fetchRequest apiBaseURL namespace repo q
           \<and> Header q ''Authorization''
               = (case urlUser (URL q) of
                    None \<Rightarrow> None
                  | Some (username, password) \<Rightarrow>
                      Some (''Basic '' @ basicAuth username password)))"

section \<open>A mock registry\<close>

text \<open>
  The tests of the repository run \<open>ValidateOCI\<close> against \<open>httptest\<close> servers. The same is
  done here with a world whose network is a table from URL to status code and body: an
  unknown URL is answered 404, and under Docker Hub's API base URL a request without the
  token of the mock token endpoint is answered 401. The mock decoders know a handful of
  bodies and reject every other one.
\<close>

definition mockDecodeAuth :: "string \<Rightarrow> error + OCIAuthResponse" where
  "mockDecodeAuth b =
     (if b = ''token'' then Inr \<lparr>Token = ''test-token''\<rparr>
      else Inl ''unexpected end of JSON input'')"

definition mockDecodeManifest :: "string \<Rightarrow> error + OCIManifest" where
  "mockDecodeManifest b =
     (if b = ''manifest''
      then Inr \<lparr>Manifests = [], OCIManifest.Config = \<lparr>Digest = ''sha256:config123''\<rparr>\<rparr>
      else if b = ''manifest-unlabelled''
      then Inr \<lparr>Manifests = [], OCIManifest.Config = \<lparr>Digest = ''sha256:config456''\<rparr>\<rparr>
      else if b = ''manifest-config429''
      then Inr \<lparr>Manifests = [], OCIManifest.Config = \<lparr>Digest = ''sha256:config429''\<rparr>\<rparr>
      else if b = ''manifest-empty''
      then Inr \<lparr>Manifests = [], OCIManifest.Config = \<lparr>Digest = []\<rparr>\<rparr>
      else if b = ''index''
      then Inr \<lparr>Manifests = [\<lparr>Digest = ''sha256:amd64''\<rparr>, \<lparr>Digest = ''sha256:arm64''\<rparr>],
                 OCIManifest.Config = \<lparr>Digest = []\<rparr>\<rparr>
      else if b = ''index429''
      then Inr \<lparr>Manifests = [\<lparr>Digest = ''sha256:limited''\<rparr>],
                 OCIManifest.Config = \<lparr>Digest = []\<rparr>\<rparr>
      else Inl ''invalid character'')"

definition mockDecodeConfig :: "string \<Rightarrow> error + OCIImageConfig" where
  "mockDecodeConfig b =
     (if b = ''config''
      then Inr \<lparr>Config = \<lparr>Labels =
                   [''io.modelcontextprotocol.server.name'' \<mapsto> ''com.example/test-server'']\<rparr>\<rparr>
      else if b = ''config-unlabelled''
      then Inr \<lparr>Config = \<lparr>Labels = Map.empty\<rparr>\<rparr>
      else Inl ''invalid character'')"

definition mockWorld :: "(string \<times> int \<times> string) list \<Rightarrow> env" where
  "mockWorld routes =
     \<lparr>newRequestError = (\<lambda>url. None),
      roundTrip = (\<lambda>history req.
        if HasPrefix (URL req) dockerIoAPIBaseURL
         \<and> Header req ''Authorization'' \<noteq> Some ''Bearer test-token''
        then Inr \<lparr>StatusCode = 401, Body = []\<rparr>
        else (case map_of routes (URL req) of
                None \<Rightarrow> Inr \<lparr>StatusCode = 404, Body = []\<rparr>
              | Some (code, b) \<Rightarrow> Inr \<lparr>StatusCode = code, Body = b\<rparr>)),
      decodeAuth = mockDecodeAuth,
      decodeManifest = mockDecodeManifest,
      decodeConfig = mockDecodeConfig\<rparr>"

text \<open>A local test registry: the tag chooses the scenario.\<close>

definition localRegistry :: env where
  "localRegistry = mockWorld
     [(''http://127.0.0.1:5000/v2/library/test-image/manifests/v1.0.0'', 200, ''manifest''),
      (''http://127.0.0.1:5000/v2/library/test-image/blobs/sha256:config123'', 200, ''config''),
      (''http://127.0.0.1:5000/v2/library/test-image/manifests/unlabelled'', 200,
         ''manifest-unlabelled''),
      (''http://127.0.0.1:5000/v2/library/test-image/blobs/sha256:config456'', 200,
         ''config-unlabelled''),
      (''http://127.0.0.1:5000/v2/library/test-image/manifests/multi'', 200, ''index''),
      (''http://127.0.0.1:5000/v2/library/test-image/manifests/sha256:amd64'', 200, ''manifest''),
      (''http://127.0.0.1:5000/v2/library/test-image/manifests/nodigest'', 200,
         ''manifest-empty''),
      (''http://127.0.0.1:5000/v2/library/test-image/manifests/limited'', 429, []),
      (''http://127.0.0.1:5000/v2/library/test-image/manifests/broken'', 200, ''<html>''),
      (''http://127.0.0.1:5000/v2/library/test-image/manifests/down'', 503, []),
      (''http://127.0.0.1:5000/v2/library/test-image/manifests/private'', 401, []),
      (''http://127.0.0.1:5000/v2/library/test-image/manifests/multi429'', 200, ''index429''),
      (''http://127.0.0.1:5000/v2/library/test-image/manifests/sha256:limited'', 429, []),
      (''http://127.0.0.1:5000/v2/library/test-image/manifests/config429'', 200,
         ''manifest-config429''),
      (''http://127.0.0.1:5000/v2/library/test-image/blobs/sha256:config429'', 429, [])]"

text \<open>Docker Hub, with its token endpoint.\<close>

definition dockerHub :: env where
  "dockerHub = mockWorld
     [(''https://auth.docker.io/token?service=registry.docker.io&scope=repository:library/test-image:pull'',
         200, ''token''),
      (''https://registry-1.docker.io/v2/library/test-image/manifests/v1.0.0'', 200, ''manifest''),
      (''https://registry-1.docker.io/v2/library/test-image/blobs/sha256:config123'', 200,
         ''config''),
      (''https://registry-1.docker.io/v2/library/test-image/manifests/multi'', 200, ''index''),
      (''https://registry-1.docker.io/v2/library/test-image/manifests/sha256:amd64'', 200,
         ''manifest'')]"

text \<open>A local registry whose base URL carries a user name and a password.\<close>

definition credentialRegistry :: env where
  "credentialRegistry = mockWorld
     [(''http://localhost:pw@127.0.0.1:5000/v2/library/test-image/manifests/v1.0.0'', 200,
         ''manifest''),
      (''http://localhost:pw@127.0.0.1:5000/v2/library/test-image/blobs/sha256:config123'', 200,
         ''config'')]"

text \<open>The local registry serving an image config with the given labels.\<close>

definition labelledRegistry :: "(string \<rightharpoonup> string) \<Rightarrow> env" where
  "labelledRegistry labels =
     localRegistry\<lparr>decodeConfig := (\<lambda>b. Inr \<lparr>Config = \<lparr>Labels = labels\<rparr>\<rparr>)\<rparr>"

definition testPackage :: "string \<Rightarrow> string \<Rightarrow> Package" where
  "testPackage baseURL tag =
     \<lparr>RegistryType = ''oci'', RegistryBaseURL = baseURL, Identifier = ''test-image'',
      Version = tag\<rparr>"

definition start :: state where
  "start = \<lparr>sent = [], logged = []\<rparr>"

section \<open>Facts about the string functions\<close>

lemmas RegistryURL_defs =
  RegistryURLDocker_def RegistryURLGHCR_def RegistryURLGAR_def RegistryURLGCR_def
  RegistryURLECR_def RegistryURLACR_def RegistryURLQuay_def RegistryURLGitLabCR_def
  RegistryURLDockerHub_def RegistryURLJFrogCR_def RegistryURLHarborCR_def
  RegistryURLAlibabaACR_def RegistryURLIBMCR_def RegistryURLOracleCR_def
  RegistryURLDigitalOceanCR_def


text \<open>\<open>Split\<close> is the split of the standard library: it returns one piece more than
  there are separators, no piece holds a separator, and the pieces are cut at the
  separators. \<open>HasPrefix\<close> and \<open>Contains\<close> are the prefix and the substring test.\<close>

lemma length_splitFrom: "length (splitFrom piece s c) = Suc (count_list s c)"
  by (induction s arbitrary: piece) auto

lemma splitFrom_no_sep: "c \<notin> set s \<Longrightarrow> splitFrom piece s c = [piece @ s]"
  by (induction s arbitrary: piece) auto

lemma splitFrom_append_sep:
  "c \<notin> set a \<Longrightarrow> splitFrom piece (a @ c # b) c = (piece @ a) # splitFrom [] b c"
  by (induction a arbitrary: piece) auto

lemma splitFrom_pieces_no_sep:
  "x \<in> set (splitFrom piece s c) \<Longrightarrow> c \<notin> set piece \<Longrightarrow> c \<notin> set x"
proof (induction s arbitrary: piece)
  case Nil
  then show ?case by simp
next
  case (Cons y ys)
  show ?case
  proof (cases "y = c")
    case True
    then have "x = piece \<or> x \<in> set (splitFrom [] ys c)" using Cons.prems by simp
    then show ?thesis using Cons.prems(2) Cons.IH[of "[]"] by auto
  next
    case False
    then have "x \<in> set (splitFrom (piece @ [y]) ys c)" using Cons.prems by simp
    moreover have "c \<notin> set (piece @ [y])" using False Cons.prems(2) by simp
    ultimately show ?thesis using Cons.IH by blast
  qed
qed

lemma length_Split: "length (Split s c) = Suc (count_list s c)"
  by (simp add: Split_def length_splitFrom)

lemma Split_no_sep: "c \<notin> set s \<Longrightarrow> Split s c = [s]"
  by (simp add: Split_def splitFrom_no_sep)

lemma Split_append_sep: "c \<notin> set a \<Longrightarrow> Split (a @ c # b) c = a # Split b c"
  by (simp add: Split_def splitFrom_append_sep)

lemma Split_pieces_no_sep: "x \<in> set (Split s c) \<Longrightarrow> c \<notin> set x"
  using splitFrom_pieces_no_sep[of x "[]" s c] by (simp add: Split_def)

lemma HasPrefix_iff: "HasPrefix s p \<longleftrightarrow> (\<exists>b. s = p @ b)"
  unfolding HasPrefix_def
  by (metis append_eq_conv_conj append_take_drop_id length_append le_add1)

lemma Contains_iff: "Contains s sub \<longleftrightarrow> (\<exists>a b. s = a @ sub @ b)"
proof (induction s)
  case Nil show ?case by auto
next
  case (Cons c cs)
  show ?case
  proof
    assume "Contains (c # cs) sub"
    then consider "HasPrefix (c # cs) sub" | "Contains cs sub" by auto
    then show "\<exists>a b. c # cs = a @ sub @ b"
    proof cases
      case 1 then obtain b where "c # cs = sub @ b" using HasPrefix_iff by blast
      then have "c # cs = [] @ sub @ b" by simp
      then show ?thesis by blast
    next
      case 2 then obtain a b where "cs = a @ sub @ b" using Cons by blast
      then have "c # cs = (c # a) @ sub @ b" by simp
      then show ?thesis by blast
    qed
  next
    assume "\<exists>a b. c # cs = a @ sub @ b"
    then obtain a b where ab: "c # cs = a @ sub @ b" by blast
    show "Contains (c # cs) sub"
    proof (cases a)
      case Nil
      then have "HasPrefix (c # cs) sub" using ab HasPrefix_iff[of "c # cs" sub] by auto
      then show ?thesis by simp
    next
      case (Cons x xs)
      then have "cs = xs @ sub @ b" using ab by simp
      then show ?thesis using Cons.IH by auto
    qed
  qed
qed

lemma Contains_mid: "Contains (a @ sub @ b) sub"
  using Contains_iff by blast

section \<open>Running the mock registries\<close>

text \<open>Concrete runs are evaluated by unfolding the functions of the validator and the
  mock world.\<close>

lemmas run_defs =
  ValidateOCI_def fetchImageConfig_def resolveConfigDigest_def fetchManifest_def
  manifestRequest_def manifestAuth_def getImageConfig_def imageConfigRequest_def
  getSpecificManifest_def specificManifestRequest_def getDockerIoAuthToken_def authURL_def
  resolveAPIBaseURL_def supportedRegistries_def RegistryURL_defs dockerIoAPIBaseURL_def
  parseImageReference_def Split_def NewRequestWithContext_def Header_Set_def Do_def Printf_def
  clientSend_def Header_Get_def urlUser_def getScheme_def letters_def digits_def
  parseAuthorityUser_def validUserinfo_def basicAuth_def EncodeToString_def encodeStd_def
  HasPrefix_def Let_def formatInt_def formatNat.simps digit_def

lemmas client_defs =
  clientSend_def Header_Get_def Header_Set_def urlUser_def getScheme_def letters_def digits_def
  parseAuthorityUser_def validUserinfo_def basicAuth_def EncodeToString_def encodeStd_def
  HasPrefix_def

lemmas mock_defs =
  mockWorld_def mockDecodeAuth_def mockDecodeManifest_def mockDecodeConfig_def
  testPackage_def start_def

lemma dockerHub_run:
  "ValidateOCI dockerHub (testPackage [] ''v1.0.0'') ''com.example/test-server'' start
     = (None,
        \<lparr>sent =
           [\<lparr>Method = ''GET'',
             URL = ''https://auth.docker.io/token?service=registry.docker.io&scope=repository:library/test-image:pull'',
             Header = Map.empty\<rparr>,
            \<lparr>Method = ''GET'',
             URL = ''https://registry-1.docker.io/v2/library/test-image/manifests/v1.0.0'',
             Header = [''Authorization'' \<mapsto> ''Bearer test-token'',
                       ''Accept'' \<mapsto> ''application/vnd.docker.distribution.manifest.v2+json,application/vnd.oci.image.manifest.v1+json'',
                       ''User-Agent'' \<mapsto> ''MCP-Registry-Validator/1.0'']\<rparr>,
            \<lparr>Method = ''GET'',
             URL = ''https://auth.docker.io/token?service=registry.docker.io&scope=repository:library/test-image:pull'',
             Header = Map.empty\<rparr>,
            \<lparr>Method = ''GET'',
             URL = ''https://registry-1.docker.io/v2/library/test-image/blobs/sha256:config123'',
             Header = [''Authorization'' \<mapsto> ''Bearer test-token'',
                       ''Accept'' \<mapsto> ''application/vnd.docker.distribution.manifest.v2+json'',
                       ''User-Agent'' \<mapsto> ''MCP-Registry-Validator/1.0'']\<rparr>],
         logged = []\<rparr>)"
  by (simp add: run_defs mock_defs dockerHub_def)

lemma formatInt_codes:
  "formatInt 401 = ''401''" "formatInt 404 = ''404''" "formatInt 429 = ''429''"
  "formatInt 503 = ''503''"
  by (simp_all add: formatInt_def formatNat.simps digit_def)

lemma localRegistry_manifestRequest:
  "manifestRequest localRegistry (testPackage ''http://127.0.0.1:5000'' tag) start
     = (Next (''http://127.0.0.1:5000'', ''library'', ''test-image'', tag,
          \<lparr>Method = ''GET'',
           URL = ''http://127.0.0.1:5000/v2/library/test-image/manifests/'' @ tag,
           Header = [''Accept'' \<mapsto> ''application/vnd.docker.distribution.manifest.v2+json,application/vnd.oci.image.manifest.v1+json'',
                     ''User-Agent'' \<mapsto> ''MCP-Registry-Validator/1.0'']\<rparr>), start)"
  by (simp add: run_defs mock_defs localRegistry_def)

lemma localRegistry_roundTrip:
  assumes "\<not> HasPrefix (URL q) dockerIoAPIBaseURL"
  shows "roundTrip localRegistry history q
     = (case map_of
          [(''http://127.0.0.1:5000/v2/library/test-image/manifests/v1.0.0'', 200, ''manifest''),
           (''http://127.0.0.1:5000/v2/library/test-image/blobs/sha256:config123'', 200, ''config''),
           (''http://127.0.0.1:5000/v2/library/test-image/manifests/unlabelled'', 200,
              ''manifest-unlabelled''),
           (''http://127.0.0.1:5000/v2/library/test-image/blobs/sha256:config456'', 200,
              ''config-unlabelled''),
           (''http://127.0.0.1:5000/v2/library/test-image/manifests/multi'', 200, ''index''),
           (''http://127.0.0.1:5000/v2/library/test-image/manifests/sha256:amd64'', 200, ''manifest''),
           (''http://127.0.0.1:5000/v2/library/test-image/manifests/nodigest'', 200,
              ''manifest-empty''),
           (''http://127.0.0.1:5000/v2/library/test-image/manifests/limited'', 429, []),
           (''http://127.0.0.1:5000/v2/library/test-image/manifests/broken'', 200, ''<html>''),
           (''http://127.0.0.1:5000/v2/library/test-image/manifests/down'', 503, []),
           (''http://127.0.0.1:5000/v2/library/test-image/manifests/private'', 401, []),
           (''http://127.0.0.1:5000/v2/library/test-image/manifests/multi429'', 200, ''index429''),
           (''http://127.0.0.1:5000/v2/library/test-image/manifests/sha256:limited'', 429, []),
           (''http://127.0.0.1:5000/v2/library/test-image/manifests/config429'', 200,
              ''manifest-config429''),
           (''http://127.0.0.1:5000/v2/library/test-image/blobs/sha256:config429'', 429, [])]
          (URL q) of
          None \<Rightarrow> Inr \<lparr>StatusCode = 404, Body = []\<rparr>
        | Some (code, b) \<Rightarrow> Inr \<lparr>StatusCode = code, Body = b\<rparr>)"
  using assms by (simp add: localRegistry_def mockWorld_def)

section \<open>The image reference parser\<close>

lemma parse_two: "CHR ''/'' \<notin> set a \<Longrightarrow> CHR ''/'' \<notin> set b \<Longrightarrow> parseImageReference (a @ ''/'' @ b) = Inr (a, b)"
  by (simp add: parseImageReference_def Split_append_sep Split_no_sep)

text \<open>
  Claim C4. \<open>parseImageReference\<close> splits the identifier on \<open>/\<close>. With exactly two
  segments it returns them as they are, as namespace and repository: that is the case of
  every identifier \<open>a/b\<close> with no slash in \<open>a\<close> or \<open>b\<close>. With exactly one segment, which
  is then the identifier itself, it returns \<open>library\<close> and the segment. With any other
  number of segments, which is then three or more, it fails with
  \<open>invalid image reference: \<close> followed by the identifier. So \<open>nginx\<close> parses to
  \<open>(library, nginx)\<close> and \<open>too/many/slashes/here\<close> is rejected.
\<close>

theorem parseImageReference_segments:
  "(length (Split identifier CHR ''/'') = 2 \<longrightarrow>
      parseImageReference identifier
        = Inr (Split identifier CHR ''/'' ! 0, Split identifier CHR ''/'' ! 1))
   \<and> (length (Split identifier CHR ''/'') = 1 \<longrightarrow>
      Split identifier CHR ''/'' = [identifier]
      \<and> parseImageReference identifier = Inr (''library'', identifier))
   \<and> (length (Split identifier CHR ''/'') \<noteq> 2 \<and> length (Split identifier CHR ''/'') \<noteq> 1 \<longrightarrow>
      3 \<le> length (Split identifier CHR ''/'')
      \<and> parseImageReference identifier = Inl (''invalid image reference: '' @ identifier))
   \<and> (\<forall>a b. identifier = a @ ''/'' @ b \<and> CHR ''/'' \<notin> set a \<and> CHR ''/'' \<notin> set b \<longrightarrow>
      parseImageReference identifier = Inr (a, b))
   \<and> parseImageReference ''nginx'' = Inr (''library'', ''nginx'')
   \<and> parseImageReference ''too/many/slashes/here''
        = Inl ''invalid image reference: too/many/slashes/here''"
proof (intro conjI impI allI)
  assume "length (Split identifier CHR ''/'') = 2"
  then show "parseImageReference identifier
        = Inr (Split identifier CHR ''/'' ! 0, Split identifier CHR ''/'' ! 1)"
    by (simp add: parseImageReference_def Let_def)
next
  assume h: "length (Split identifier CHR ''/'') = 1"
  then have "count_list identifier CHR ''/'' = 0" by (simp add: length_Split)
  then have "CHR ''/'' \<notin> set identifier" by (simp add: count_list_0_iff)
  then show s: "Split identifier CHR ''/'' = [identifier]" by (rule Split_no_sep)
  show "parseImageReference identifier = Inr (''library'', identifier)"
    by (simp add: parseImageReference_def s)
next
  assume h: "length (Split identifier CHR ''/'') \<noteq> 2 \<and> length (Split identifier CHR ''/'') \<noteq> 1"
  then show "3 \<le> length (Split identifier CHR ''/'')"
    by (simp add: length_Split)
  from h show "parseImageReference identifier = Inl (''invalid image reference: '' @ identifier)"
    by (simp add: parseImageReference_def Split_def)
next
  fix a b
  assume "identifier = a @ ''/'' @ b \<and> CHR ''/'' \<notin> set a \<and> CHR ''/'' \<notin> set b"
  then show "parseImageReference identifier = Inr (a, b)" using parse_two by blast
next
  show "parseImageReference ''nginx'' = Inr (''library'', ''nginx'')"
    by (simp add: parseImageReference_def Split_def)
  show "parseImageReference ''too/many/slashes/here''
        = Inl ''invalid image reference: too/many/slashes/here''"
    by (simp add: parseImageReference_def Split_def)
qed

theorem parseImageReference_segments_witness:
  "parseImageReference ''myorg/myrepo'' = Inr (''myorg'', ''myrepo'')
   \<and> parseImageReference ''redis'' = Inr (''library'', ''redis'')
   \<and> parseImageReference ''a/b/c'' = Inl ''invalid image reference: a/b/c''"
  using parseImageReference_segments[of "''myorg/myrepo''"]
        parseImageReference_segments[of "''redis''"]
        parseImageReference_segments[of "''a/b/c''"]
  by (simp add: Split_def)

text \<open>
  Claim C9, as stated: every accepted identifier gives a non-empty namespace and a
  non-empty repository. It fails: the empty identifier is one segment, the empty one, and
  is accepted with the repository empty (the repository's own test
  \<open>TestParseImageReference_AllCases\<close> expects just that).
\<close>

theorem parseImageReference_empty_repository:
  "\<not> (\<forall>identifier namespace repo.
         parseImageReference identifier = Inr (namespace, repo) \<longrightarrow> namespace \<noteq> [] \<and> repo \<noteq> [])"
proof
  assume "\<forall>identifier namespace repo.
         parseImageReference identifier = Inr (namespace, repo) \<longrightarrow> namespace \<noteq> [] \<and> repo \<noteq> []"
  moreover have "parseImageReference [] = Inr (''library'', [])"
    by (simp add: parseImageReference_def Split_def)
  ultimately show False by blast
qed

text \<open>
  Claim C9, amended. For every identifier that \<open>parseImageReference\<close> accepts, the
  namespace and the repository are both non-empty exactly when none of the segments of
  the identifier is empty; and when the identifier has no slash, the namespace is the
  literal \<open>library\<close> and the repository is the identifier.
\<close>

theorem parseImageReference_nonempty:
  assumes "parseImageReference identifier = Inr (namespace, repo)"
  shows "((namespace \<noteq> [] \<and> repo \<noteq> []) = ([] \<notin> set (Split identifier CHR ''/'')))
         \<and> (CHR ''/'' \<notin> set identifier \<longrightarrow> namespace = ''library'' \<and> repo = identifier)"
proof (rule conjI)
  let ?parts = "Split identifier CHR ''/''"
  consider "length ?parts = 2" | "length ?parts = 1"
    using assms by (auto simp: parseImageReference_def Let_def split: if_splits)
  then show "(namespace \<noteq> [] \<and> repo \<noteq> []) = ([] \<notin> set ?parts)"
  proof cases
    case 1
    then obtain x y where xy: "?parts = [x, y]"
      by (metis One_nat_def Suc_1 length_0_conv length_Suc_conv)
    then show ?thesis using assms by (auto simp: parseImageReference_def)
  next
    case 2
    then obtain x where x: "?parts = [x]"
      by (metis One_nat_def length_0_conv length_Suc_conv)
    then show ?thesis using assms by (auto simp: parseImageReference_def)
  qed
  show "CHR ''/'' \<notin> set identifier \<longrightarrow> namespace = ''library'' \<and> repo = identifier"
    using assms by (auto simp: parseImageReference_def Split_no_sep)
qed

theorem parseImageReference_nonempty_witness:
  "parseImageReference ''myorg/myrepo'' = Inr (''myorg'', ''myrepo'')
   \<and> ''myorg'' \<noteq> [] \<and> ''myrepo'' \<noteq> []
   \<and> [] \<notin> set (Split ''myorg/myrepo'' CHR ''/'')"
proof -
  note Split_def [simp]
  have h: "parseImageReference ''myorg/myrepo'' = Inr (''myorg'', ''myrepo'')"
    by (simp add: parseImageReference_def Split_def)
  from parseImageReference_nonempty[OF h] h show ?thesis by simp
qed

section \<open>The registry resolver\<close>

text \<open>
  Claim C8. A package whose \<open>RegistryBaseURL\<close> is empty is validated exactly as the same
  package with the base URL of Docker (\<open>https://docker.io\<close>): the same result and the
  same effects, for every world, server name and starting state, and already the same
  first request; that base URL resolves to Docker Hub's API base URL.
\<close>

theorem ValidateOCI_default_registry:
  "ValidateOCI w (pkg\<lparr>RegistryBaseURL := []\<rparr>) serverName s
     = ValidateOCI w (pkg\<lparr>RegistryBaseURL := RegistryURLDocker\<rparr>) serverName s
   \<and> manifestRequest w (pkg\<lparr>RegistryBaseURL := []\<rparr>) s
     = manifestRequest w (pkg\<lparr>RegistryBaseURL := RegistryURLDocker\<rparr>) s
   \<and> resolveAPIBaseURL RegistryURLDocker = Inr dockerIoAPIBaseURL"
proof -
  have m: "manifestRequest w (pkg\<lparr>RegistryBaseURL := []\<rparr>) s
     = manifestRequest w (pkg\<lparr>RegistryBaseURL := RegistryURLDocker\<rparr>) s"
    by (simp add: manifestRequest_def RegistryURLDocker_def)
  have r: "resolveAPIBaseURL RegistryURLDocker = Inr dockerIoAPIBaseURL"
    by (simp add: resolveAPIBaseURL_def supportedRegistries_def)
  show ?thesis
    by (simp add: ValidateOCI_def fetchImageConfig_def resolveConfigDigest_def fetchManifest_def m r)
qed

theorem ValidateOCI_default_registry_witness:
  "ValidateOCI dockerHub (testPackage [] ''v1.0.0'') ''com.example/test-server'' start
     = ValidateOCI dockerHub (testPackage ''https://docker.io'' ''v1.0.0'')
         ''com.example/test-server'' start
   \<and> fst (ValidateOCI dockerHub (testPackage ''https://docker.io'' ''v1.0.0'')
            ''com.example/test-server'' start) = None"
proof -
  have a: "(testPackage u ''v1.0.0'')\<lparr>RegistryBaseURL := []\<rparr> = testPackage [] ''v1.0.0''" for u
    by (simp add: testPackage_def)
  have b: "(testPackage u ''v1.0.0'')\<lparr>RegistryBaseURL := RegistryURLDocker\<rparr>
             = testPackage ''https://docker.io'' ''v1.0.0''" for u
    by (simp add: testPackage_def RegistryURLDocker_def)
  have c: "ValidateOCI dockerHub (testPackage [] ''v1.0.0'') ''com.example/test-server'' start
     = ValidateOCI dockerHub (testPackage ''https://docker.io'' ''v1.0.0'')
         ''com.example/test-server'' start"
    using ValidateOCI_default_registry
            [of dockerHub "testPackage [] ''v1.0.0''" "''com.example/test-server''" start]
    by (simp add: a b)
  have d: "fst (ValidateOCI dockerHub (testPackage [] ''v1.0.0'') ''com.example/test-server''
                  start) = None"
    by (simp add: dockerHub_run)
  show ?thesis using c d by metis
qed

lemma supportedRegistries_lookup:
  "map_of supportedRegistries u = Some api \<Longrightarrow>
     (api = dockerIoAPIBaseURL) = (u = RegistryURLDocker \<or> u = RegistryURLDockerHub)"
  by (auto simp: supportedRegistries_def RegistryURL_defs dockerIoAPIBaseURL_def split: if_splits)

lemma dockerIoAPIBaseURL_no_fallback:
  "\<not> Contains dockerIoAPIBaseURL ''-docker.pkg.dev''"
  "\<not> Contains dockerIoAPIBaseURL ''.gcr.io''"
  "\<not> Contains dockerIoAPIBaseURL ''.amazonaws.com''"
  "\<not> Contains dockerIoAPIBaseURL ''.azurecr.io''"
  "\<not> HasPrefix dockerIoAPIBaseURL ''http://127.0.0.1:''"
  "\<not> HasPrefix dockerIoAPIBaseURL ''http://localhost:''"
  by (simp_all add: dockerIoAPIBaseURL_def HasPrefix_def)

lemma resolveAPIBaseURL_docker:
  "resolveAPIBaseURL u = Inr api \<Longrightarrow>
     (api = dockerIoAPIBaseURL) = (u = RegistryURLDocker \<or> u = RegistryURLDockerHub)"
proof (cases "map_of supportedRegistries u")
  case None
  assume r: "resolveAPIBaseURL u = Inr api"
  have keys: "map_of supportedRegistries RegistryURLDocker \<noteq> None"
             "map_of supportedRegistries RegistryURLDockerHub \<noteq> None"
    by (simp_all add: supportedRegistries_def RegistryURL_defs)
  from r None have "api = u"
    by (auto simp: resolveAPIBaseURL_def split: if_splits)
  moreover have "u \<noteq> dockerIoAPIBaseURL"
    using r None dockerIoAPIBaseURL_no_fallback
    by (auto simp: resolveAPIBaseURL_def split: if_splits)
  ultimately show ?thesis using None keys by auto
next
  case (Some a)
  assume r: "resolveAPIBaseURL u = Inr api"
  then have "a = api" using Some by (simp add: resolveAPIBaseURL_def)
  then show ?thesis using supportedRegistries_lookup Some by blast
qed

lemma manifestAuth_anonymous:
  "apiBaseURL \<noteq> dockerIoAPIBaseURL \<Longrightarrow>
     manifestAuth w baseURL apiBaseURL namespace repo req s = (Inr req, s)"
  by (simp add: manifestAuth_def)

lemma Join_supportedList:
  "Join supportedList '', ''
     = ''docker.io, ghcr.io, gcr.io, quay.io, artifactregistry.googleapis.com''"
  by (simp add: supportedList_def)

lemma NewRequestWithContext_ok:
  "newRequestError w url = None \<Longrightarrow>
     NewRequestWithContext w method url = Inr \<lparr>Method = method, URL = url, Header = Map.empty\<rparr>"
  by (simp add: NewRequestWithContext_def)

text \<open>
  Claim C7. A base URL that is not a key of the provider table and that none of the
  fallbacks matches (an empty base URL stands for Docker's, which is a key) makes
  \<open>ValidateOCI\<close> fail with \<open>unsupported OCI registry\<close>: the message quotes the rejected
  base URL and then lists five example registries, fewer than the table has entries. The
  state is returned as it was: no request has been sent.
\<close>

theorem ValidateOCI_unsupported_registry:
  assumes "RegistryBaseURL pkg \<noteq> []"
    and "RegistryBaseURL pkg \<notin> set (map fst supportedRegistries)"
    and "\<not> Contains (RegistryBaseURL pkg) ''-docker.pkg.dev''"
    and "\<not> Contains (RegistryBaseURL pkg) ''.gcr.io''"
    and "\<not> Contains (RegistryBaseURL pkg) ''.amazonaws.com''"
    and "\<not> Contains (RegistryBaseURL pkg) ''.azurecr.io''"
    and "\<not> HasPrefix (RegistryBaseURL pkg) ''http://127.0.0.1:''"
    and "\<not> HasPrefix (RegistryBaseURL pkg) ''http://localhost:''"
  shows "ValidateOCI w pkg serverName s
           = (Some (''unsupported OCI registry: '' @ [CHR 0x27] @ RegistryBaseURL pkg @ [CHR 0x27]
                @ ''. Supported registries: docker.io, ghcr.io, gcr.io, quay.io, artifactregistry.googleapis.com''),
              s)
         \<and> Contains (''unsupported OCI registry: '' @ [CHR 0x27] @ RegistryBaseURL pkg @ [CHR 0x27]
                @ ''. Supported registries: docker.io, ghcr.io, gcr.io, quay.io, artifactregistry.googleapis.com'')
              (RegistryBaseURL pkg)
         \<and> length supportedList < length supportedRegistries"
proof (intro conjI)
  have n: "map_of supportedRegistries (RegistryBaseURL pkg) = None"
    using assms(2) by (simp add: map_of_eq_None_iff)
  have r: "resolveAPIBaseURL (RegistryBaseURL pkg)
             = Inl (''unsupported OCI registry: '' @ [CHR 0x27] @ RegistryBaseURL pkg @ [CHR 0x27]
                @ ''. Supported registries: docker.io, ghcr.io, gcr.io, quay.io, artifactregistry.googleapis.com'')"
    using assms(3-8) by (simp add: resolveAPIBaseURL_def n Join_supportedList)
  have m: "manifestRequest w pkg s
             = (Return (Some (''unsupported OCI registry: '' @ [CHR 0x27] @ RegistryBaseURL pkg @ [CHR 0x27]
                @ ''. Supported registries: docker.io, ghcr.io, gcr.io, quay.io, artifactregistry.googleapis.com'')), s)"
    using assms(1) by (simp add: manifestRequest_def r)
  show "ValidateOCI w pkg serverName s
           = (Some (''unsupported OCI registry: '' @ [CHR 0x27] @ RegistryBaseURL pkg @ [CHR 0x27]
                @ ''. Supported registries: docker.io, ghcr.io, gcr.io, quay.io, artifactregistry.googleapis.com''),
              s)"
    by (simp add: ValidateOCI_def fetchImageConfig_def resolveConfigDigest_def fetchManifest_def m)
  show "Contains (''unsupported OCI registry: '' @ [CHR 0x27] @ RegistryBaseURL pkg @ [CHR 0x27]
                @ ''. Supported registries: docker.io, ghcr.io, gcr.io, quay.io, artifactregistry.googleapis.com'')
              (RegistryBaseURL pkg)"
    using Contains_mid[of "''unsupported OCI registry: '' @ [CHR 0x27]" "RegistryBaseURL pkg"] by simp
  show "length supportedList < length supportedRegistries"
    by (simp add: supportedList_def supportedRegistries_def)
qed

theorem ValidateOCI_unsupported_registry_witness:
  "ValidateOCI localRegistry (testPackage ''https://not-a-real-registry.example'' ''v1.0.0'')
       ''com.example/test-server'' start
     = (Some (''unsupported OCI registry: '' @ [CHR 0x27] @ ''https://not-a-real-registry.example''
          @ [CHR 0x27]
          @ ''. Supported registries: docker.io, ghcr.io, gcr.io, quay.io, artifactregistry.googleapis.com''),
        start)"
  using ValidateOCI_unsupported_registry
          [of "testPackage ''https://not-a-real-registry.example'' ''v1.0.0''"
              localRegistry "''com.example/test-server''" start]
  by (simp add: testPackage_def supportedRegistries_def RegistryURL_defs HasPrefix_def)

text \<open>
  Claim C6. For a base URL that is not a key of the provider table, the fallbacks are
  tried in order: the substrings \<open>-docker.pkg.dev\<close> (regional Artifact Registry),
  \<open>.gcr.io\<close> (regional Container Registry), \<open>.amazonaws.com\<close>, \<open>.azurecr.io\<close>, and the
  loopback hosts, which are recognised at the start of the URL (\<open>http://127.0.0.1:\<close>,
  \<open>http://localhost:\<close>). Whichever matches, the API base URL is the base URL itself, and
  the first manifest request of \<open>ValidateOCI\<close> is built on it, with no token fetched.
  In particular \<open>https://us-central1-docker.pkg.dev\<close> resolves to itself.
\<close>

theorem resolveAPIBaseURL_fallback:
  assumes "baseURL \<notin> set (map fst supportedRegistries)"
    and "Contains baseURL ''-docker.pkg.dev'' \<or> Contains baseURL ''.gcr.io''
         \<or> Contains baseURL ''.amazonaws.com'' \<or> Contains baseURL ''.azurecr.io''
         \<or> HasPrefix baseURL ''http://127.0.0.1:'' \<or> HasPrefix baseURL ''http://localhost:''"
  shows "resolveAPIBaseURL baseURL = Inr baseURL
         \<and> resolveAPIBaseURL ''https://us-central1-docker.pkg.dev''
             = Inr ''https://us-central1-docker.pkg.dev''
         \<and> (\<forall>w pkg s namespace repo.
               RegistryBaseURL pkg = baseURL
               \<and> parseImageReference (Identifier pkg) = Inr (namespace, repo)
               \<and> newRequestError w (baseURL @ ''/v2/'' @ namespace @ ''/'' @ repo @ ''/manifests/''
                                      @ Version pkg) = None
               \<longrightarrow> manifestRequest w pkg s
                     = (Next (baseURL, namespace, repo, Version pkg,
                          \<lparr>Method = ''GET'',
                           URL = baseURL @ ''/v2/'' @ namespace @ ''/'' @ repo @ ''/manifests/''
                                   @ Version pkg,
                           Header = [''Accept'' \<mapsto> ''application/vnd.docker.distribution.manifest.v2+json,application/vnd.oci.image.manifest.v1+json'',
                                     ''User-Agent'' \<mapsto> ''MCP-Registry-Validator/1.0'']\<rparr>), s))"
proof (intro conjI allI impI)
  have n: "map_of supportedRegistries baseURL = None"
    using assms(1) by (simp add: map_of_eq_None_iff)
  show r: "resolveAPIBaseURL baseURL = Inr baseURL"
    using assms(2) by (auto simp: resolveAPIBaseURL_def n)
  show "resolveAPIBaseURL ''https://us-central1-docker.pkg.dev''
             = Inr ''https://us-central1-docker.pkg.dev''"
    by (simp add: resolveAPIBaseURL_def supportedRegistries_def RegistryURL_defs HasPrefix_def)
  have d: "baseURL \<noteq> dockerIoAPIBaseURL"
    using assms(2) dockerIoAPIBaseURL_no_fallback by auto
  have ne: "baseURL \<noteq> []"
    using assms(2) by (auto simp: HasPrefix_def)
  fix w :: env and pkg :: Package and s :: state and namespace repo :: string
  assume h: "RegistryBaseURL pkg = baseURL
               \<and> parseImageReference (Identifier pkg) = Inr (namespace, repo)
               \<and> newRequestError w (baseURL @ ''/v2/'' @ namespace @ ''/'' @ repo @ ''/manifests/''
                                      @ Version pkg) = None"
  then show "manifestRequest w pkg s
                     = (Next (baseURL, namespace, repo, Version pkg,
                          \<lparr>Method = ''GET'',
                           URL = baseURL @ ''/v2/'' @ namespace @ ''/'' @ repo @ ''/manifests/''
                                   @ Version pkg,
                           Header = [''Accept'' \<mapsto> ''application/vnd.docker.distribution.manifest.v2+json,application/vnd.oci.image.manifest.v1+json'',
                                     ''User-Agent'' \<mapsto> ''MCP-Registry-Validator/1.0'']\<rparr>), s)"
    using ne d r
    by (simp add: manifestRequest_def NewRequestWithContext_ok manifestAuth_anonymous Header_Set_def Let_def)
qed

theorem resolveAPIBaseURL_fallback_witness:
  "resolveAPIBaseURL ''https://myregistry.azurecr.io'' = Inr ''https://myregistry.azurecr.io''
   \<and> fst (manifestRequest localRegistry (testPackage ''http://127.0.0.1:5000'' ''v1.0.0'') start)
       = Next (''http://127.0.0.1:5000'', ''library'', ''test-image'', ''v1.0.0'',
           \<lparr>Method = ''GET'',
            URL = ''http://127.0.0.1:5000/v2/library/test-image/manifests/v1.0.0'',
            Header = [''Accept'' \<mapsto> ''application/vnd.docker.distribution.manifest.v2+json,application/vnd.oci.image.manifest.v1+json'',
                      ''User-Agent'' \<mapsto> ''MCP-Registry-Validator/1.0'']\<rparr>)"
proof -
  have p: "parseImageReference ''test-image'' = Inr (''library'', ''test-image'')"
    by (simp add: parseImageReference_def Split_def)
  have a: "resolveAPIBaseURL ''https://myregistry.azurecr.io'' = Inr ''https://myregistry.azurecr.io''"
    using resolveAPIBaseURL_fallback[of "''https://myregistry.azurecr.io''"]
    by (simp add: supportedRegistries_def RegistryURL_defs HasPrefix_def)
  have b: "manifestRequest localRegistry (testPackage ''http://127.0.0.1:5000'' ''v1.0.0'') start
       = (Next (''http://127.0.0.1:5000'', ''library'', ''test-image'', ''v1.0.0'',
           \<lparr>Method = ''GET'',
            URL = ''http://127.0.0.1:5000/v2/library/test-image/manifests/v1.0.0'',
            Header = [''Accept'' \<mapsto> ''application/vnd.docker.distribution.manifest.v2+json,application/vnd.oci.image.manifest.v1+json'',
                      ''User-Agent'' \<mapsto> ''MCP-Registry-Validator/1.0'']\<rparr>), start)"
    using resolveAPIBaseURL_fallback[of "''http://127.0.0.1:5000''"] p
    by (simp add: supportedRegistries_def RegistryURL_defs HasPrefix_def testPackage_def
          localRegistry_def mockWorld_def Let_def)
  show ?thesis using a b by simp
qed

section \<open>The requests that are built\<close>

lemma sends_simps [simp]:
  "sent (sends s reqs) = sent s @ reqs"
  "logged (sends s reqs) = logged s"
  "sends (sends s xs) ys = sends s (xs @ ys)"
  "sends s [] = s"
  by (simp_all add: sends_def)

lemma Do_eq: "Do w req s = (roundTrip w (sent s) (clientSend req), sends s [clientSend req])"
  by (simp add: Do_def sends_def)

lemma clientSend_same [simp]:
  "Method (clientSend req) = Method req"
  "URL (clientSend req) = URL req"
  "k \<noteq> ''Authorization'' \<Longrightarrow> Header (clientSend req) k = Header req k"
  by (auto simp: clientSend_def Header_Set_def split: option.splits)

lemma clientSend_Authorization:
  "Header req ''Authorization'' = None \<Longrightarrow>
     Header (clientSend req) ''Authorization''
       = (case urlUser (URL req) of
            None \<Rightarrow> None
          | Some (username, password) \<Rightarrow> Some (''Basic '' @ basicAuth username password))"
  by (auto simp: clientSend_def Header_Set_def Header_Get_def split: option.splits)

lemma clientSend_Bearer:
  "Header req ''Authorization'' = Some (''Bearer '' @ token) \<Longrightarrow> clientSend req = req"
  by (auto simp: clientSend_def Header_Get_def split: option.splits)

lemma urlUser_authURL: "urlUser (authURL namespace repo) = None"
  by (simp add: authURL_def urlUser_def getScheme_def letters_def digits_def HasPrefix_def
        parseAuthorityUser_def)

lemma clientSend_tokenRequest [simp]:
  "clientSend (tokenRequest namespace repo) = tokenRequest namespace repo"
  by (simp add: clientSend_def tokenRequest_def urlUser_authURL)

lemma HasPrefix_append [simp]: "HasPrefix (p @ b) p"
  by (simp add: HasPrefix_def)

lemma NewRequestWithContext_tokenRequest:
  "NewRequestWithContext w ''GET'' (authURL namespace repo)
     = (case newRequestError w (authURL namespace repo) of
          Some e \<Rightarrow> Inl e
        | None \<Rightarrow> Inr (tokenRequest namespace repo))"
  by (simp add: NewRequestWithContext_def tokenRequest_def split: option.splits)

lemma getDockerIoAuthToken_Inr:
  "getDockerIoAuthToken w namespace repo s = (Inr token, s1) \<Longrightarrow>
     s1 = sends s [tokenRequest namespace repo]
     \<and> (\<exists>resp authResp.
           roundTrip w (sent s) (tokenRequest namespace repo) = Inr resp
           \<and> StatusCode resp = 200
           \<and> decodeAuth w (Body resp) = Inr authResp
           \<and> Token authResp = token)"
  by (auto simp: getDockerIoAuthToken_def NewRequestWithContext_tokenRequest Do_eq
           split: option.splits sum.splits if_splits)

lemma getDockerIoAuthToken_sent:
  "getDockerIoAuthToken w namespace repo s = (r, s1) \<Longrightarrow>
     s1 = s \<or> s1 = sends s [tokenRequest namespace repo]"
  by (auto simp: getDockerIoAuthToken_def NewRequestWithContext_tokenRequest Do_eq
           split: option.splits sum.splits if_splits)

lemma manifestAuth_docker:
  "manifestAuth w baseURL dockerIoAPIBaseURL namespace repo req s = (Inr req1, s1) \<Longrightarrow>
     s1 = sends s [tokenRequest namespace repo]
     \<and> (\<exists>resp authResp.
           roundTrip w (sent s) (tokenRequest namespace repo) = Inr resp
           \<and> StatusCode resp = 200
           \<and> decodeAuth w (Body resp) = Inr authResp
           \<and> req1 = Header_Set req ''Authorization'' (''Bearer '' @ Token authResp))"
  using getDockerIoAuthToken_Inr[of w namespace repo s]
  by (auto simp: manifestAuth_def split: prod.splits sum.splits)

lemma specificManifestRequest_docker:
  "specificManifestRequest w dockerIoAPIBaseURL namespace repo digest s = (Inr req, s1) \<Longrightarrow>
     s1 = sends s [tokenRequest namespace repo]
     \<and> (\<exists>resp authResp.
           roundTrip w (sent s) (tokenRequest namespace repo) = Inr resp
           \<and> StatusCode resp = 200
           \<and> decodeAuth w (Body resp) = Inr authResp
           \<and> req = \<lparr>Method = ''GET'',
                    URL = dockerIoAPIBaseURL @ ''/v2/'' @ namespace @ ''/'' @ repo @ ''/manifests/''
                            @ digest,
                    Header = [''Authorization'' \<mapsto> ''Bearer '' @ Token authResp,
                              ''Accept'' \<mapsto> ''application/vnd.oci.image.manifest.v1+json'',
                              ''User-Agent'' \<mapsto> ''MCP-Registry-Validator/1.0'']\<rparr>)"
  using getDockerIoAuthToken_Inr[of w namespace repo s]
  by (auto simp: specificManifestRequest_def NewRequestWithContext_def Header_Set_def
           split: option.splits prod.splits sum.splits)

lemma specificManifestRequest_anonymous:
  "apiBaseURL \<noteq> dockerIoAPIBaseURL \<Longrightarrow>
   specificManifestRequest w apiBaseURL namespace repo digest s = (Inr req, s1) \<Longrightarrow>
     s1 = s
     \<and> req = \<lparr>Method = ''GET'',
              URL = apiBaseURL @ ''/v2/'' @ namespace @ ''/'' @ repo @ ''/manifests/'' @ digest,
              Header = [''Accept'' \<mapsto> ''application/vnd.oci.image.manifest.v1+json'',
                        ''User-Agent'' \<mapsto> ''MCP-Registry-Validator/1.0'']\<rparr>"
  by (auto simp: specificManifestRequest_def NewRequestWithContext_def Header_Set_def
           split: option.splits)

lemma imageConfigRequest_docker:
  "imageConfigRequest w dockerIoAPIBaseURL namespace repo digest s = (Inr req, s1) \<Longrightarrow>
     s1 = sends s [tokenRequest namespace repo]
     \<and> (\<exists>resp authResp.
           roundTrip w (sent s) (tokenRequest namespace repo) = Inr resp
           \<and> StatusCode resp = 200
           \<and> decodeAuth w (Body resp) = Inr authResp
           \<and> req = \<lparr>Method = ''GET'',
                    URL = dockerIoAPIBaseURL @ ''/v2/'' @ namespace @ ''/'' @ repo @ ''/blobs/''
                            @ digest,
                    Header = [''Authorization'' \<mapsto> ''Bearer '' @ Token authResp,
                              ''Accept'' \<mapsto> ''application/vnd.docker.distribution.manifest.v2+json'',
                              ''User-Agent'' \<mapsto> ''MCP-Registry-Validator/1.0'']\<rparr>)"
  using getDockerIoAuthToken_Inr[of w namespace repo s]
  by (auto simp: imageConfigRequest_def NewRequestWithContext_def Header_Set_def
           split: option.splits prod.splits sum.splits)

lemma imageConfigRequest_anonymous:
  "apiBaseURL \<noteq> dockerIoAPIBaseURL \<Longrightarrow>
   imageConfigRequest w apiBaseURL namespace repo digest s = (Inr req, s1) \<Longrightarrow>
     s1 = s
     \<and> req = \<lparr>Method = ''GET'',
              URL = apiBaseURL @ ''/v2/'' @ namespace @ ''/'' @ repo @ ''/blobs/'' @ digest,
              Header = [''Accept'' \<mapsto> ''application/vnd.docker.distribution.manifest.v2+json'',
                        ''User-Agent'' \<mapsto> ''MCP-Registry-Validator/1.0'']\<rparr>"
  by (auto simp: imageConfigRequest_def NewRequestWithContext_def Header_Set_def
           split: option.splits)

lemma manifestRequest_Next:
  assumes "manifestRequest w pkg s = (Next (apiBaseURL, namespace, repo, tag, req), s1)"
  shows "resolveAPIBaseURL (if RegistryBaseURL pkg = [] then RegistryURLDocker
                            else RegistryBaseURL pkg) = Inr apiBaseURL
         \<and> parseImageReference (Identifier pkg) = Inr (namespace, repo)
         \<and> tag = Version pkg"
  using assms
  by (auto simp: manifestRequest_def Let_def split: sum.splits prod.splits if_splits)

lemma manifestRequest_docker:
  assumes "manifestRequest w pkg s = (Next (dockerIoAPIBaseURL, namespace, repo, tag, req), s1)"
  shows "s1 = sends s [tokenRequest namespace repo]
     \<and> (\<exists>resp authResp.
           roundTrip w (sent s) (tokenRequest namespace repo) = Inr resp
           \<and> StatusCode resp = 200
           \<and> decodeAuth w (Body resp) = Inr authResp
           \<and> req = \<lparr>Method = ''GET'',
                    URL = dockerIoAPIBaseURL @ ''/v2/'' @ namespace @ ''/'' @ repo @ ''/manifests/''
                            @ tag,
                    Header = [''Authorization'' \<mapsto> ''Bearer '' @ Token authResp,
                              ''Accept'' \<mapsto> ''application/vnd.docker.distribution.manifest.v2+json,application/vnd.oci.image.manifest.v1+json'',
                              ''User-Agent'' \<mapsto> ''MCP-Registry-Validator/1.0'']\<rparr>)"
proof -
  let ?url = "dockerIoAPIBaseURL @ ''/v2/'' @ namespace @ ''/'' @ repo @ ''/manifests/'' @ tag"
  let ?req0 = "\<lparr>Method = ''GET'', URL = ?url, Header = Map.empty\<rparr>"
  let ?base = "if RegistryBaseURL pkg = [] then RegistryURLDocker else RegistryBaseURL pkg"
  obtain req1 where a: "manifestAuth w ?base dockerIoAPIBaseURL namespace repo ?req0 s = (Inr req1, s1)"
    and r: "req = Header_Set (Header_Set req1 ''Accept''
              ''application/vnd.docker.distribution.manifest.v2+json,application/vnd.oci.image.manifest.v1+json'')
              ''User-Agent'' ''MCP-Registry-Validator/1.0''"
    using assms
    by (auto simp: manifestRequest_def Let_def NewRequestWithContext_def
             split: sum.splits prod.splits if_splits option.splits)
  from manifestAuth_docker[OF a] r show ?thesis
    by (auto simp: Header_Set_def)
qed

lemma manifestRequest_anonymous:
  assumes "manifestRequest w pkg s = (Next (apiBaseURL, namespace, repo, tag, req), s1)"
    and "apiBaseURL \<noteq> dockerIoAPIBaseURL"
  shows "s1 = s
     \<and> req = \<lparr>Method = ''GET'',
              URL = apiBaseURL @ ''/v2/'' @ namespace @ ''/'' @ repo @ ''/manifests/'' @ tag,
              Header = [''Accept'' \<mapsto> ''application/vnd.docker.distribution.manifest.v2+json,application/vnd.oci.image.manifest.v1+json'',
                        ''User-Agent'' \<mapsto> ''MCP-Registry-Validator/1.0'']\<rparr>"
  using assms
  by (auto simp: manifestRequest_def Let_def NewRequestWithContext_def manifestAuth_anonymous
                 Header_Set_def
           split: sum.splits prod.splits if_splits option.splits)

section \<open>The requests that are sent\<close>

text \<open>Every function only appends to the requests sent, and every request it sends is
  authorized as the API base URL demands.\<close>

lemma authorizedFor_tokenRequest:
  "authorizedFor dockerIoAPIBaseURL namespace repo (tokenRequest namespace repo)"
  by (simp add: authorizedFor_def)

lemma HasPrefix_fetch:
  "HasPrefix (apiBaseURL @ ''/v2/'' @ namespace @ ''/'' @ repo @ kind @ ref)
     (apiBaseURL @ ''/v2/'' @ namespace @ ''/'' @ repo @ kind)"
proof -
  have "apiBaseURL @ ''/v2/'' @ namespace @ ''/'' @ repo @ kind @ ref
          = (apiBaseURL @ ''/v2/'' @ namespace @ ''/'' @ repo @ kind) @ ref"
    by simp
  then show ?thesis by (simp only: HasPrefix_append)
qed

lemma fetchRequest_manifests:
  assumes "Method q = ''GET''"
    and "URL q = apiBaseURL @ ''/v2/'' @ namespace @ ''/'' @ repo @ ''/manifests/'' @ ref"
    and "Header q ''User-Agent'' = Some ''MCP-Registry-Validator/1.0''"
  shows "fetchRequest apiBaseURL namespace repo q"
  using assms HasPrefix_fetch[of apiBaseURL namespace repo "''/manifests/''" ref]
  by (simp add: fetchRequest_def)

lemma fetchRequest_blobs:
  assumes "Method q = ''GET''"
    and "URL q = apiBaseURL @ ''/v2/'' @ namespace @ ''/'' @ repo @ ''/blobs/'' @ ref"
    and "Header q ''User-Agent'' = Some ''MCP-Registry-Validator/1.0''"
  shows "fetchRequest apiBaseURL namespace repo q"
  using assms HasPrefix_fetch[of apiBaseURL namespace repo "''/blobs/''" ref]
  by (simp add: fetchRequest_def)

lemma authorizedFor_bearer:
  assumes "fetchRequest dockerIoAPIBaseURL namespace repo req"
    and "Header req ''Authorization'' = Some (''Bearer '' @ token)"
  shows "authorizedFor dockerIoAPIBaseURL namespace repo (clientSend req)"
  using assms by (auto simp: authorizedFor_def clientSend_Bearer)

lemma authorizedFor_anonymous:
  assumes "apiBaseURL \<noteq> dockerIoAPIBaseURL"
    and "fetchRequest apiBaseURL namespace repo req"
    and "Header req ''Authorization'' = None"
  shows "authorizedFor apiBaseURL namespace repo (clientSend req)"
  using assms clientSend_Authorization[of req]
  by (simp add: authorizedFor_def fetchRequest_def)

lemma specificManifestRequest_fetch:
  assumes "specificManifestRequest w apiBaseURL namespace repo digest s = (Inr req, s1)"
  shows "fetchRequest apiBaseURL namespace repo req"
proof -
  have "Method req = ''GET''
        \<and> URL req = apiBaseURL @ ''/v2/'' @ namespace @ ''/'' @ repo @ ''/manifests/'' @ digest
        \<and> Header req ''User-Agent'' = Some ''MCP-Registry-Validator/1.0''"
    using assms
    by (auto simp: specificManifestRequest_def NewRequestWithContext_def Header_Set_def
             split: option.splits sum.splits prod.splits if_splits)
  then show ?thesis using fetchRequest_manifests by blast
qed

lemma imageConfigRequest_fetch:
  assumes "imageConfigRequest w apiBaseURL namespace repo digest s = (Inr req, s1)"
  shows "fetchRequest apiBaseURL namespace repo req"
proof -
  have "Method req = ''GET''
        \<and> URL req = apiBaseURL @ ''/v2/'' @ namespace @ ''/'' @ repo @ ''/blobs/'' @ digest
        \<and> Header req ''User-Agent'' = Some ''MCP-Registry-Validator/1.0''"
    using assms
    by (auto simp: imageConfigRequest_def NewRequestWithContext_def Header_Set_def
             split: option.splits sum.splits prod.splits if_splits)
  then show ?thesis using fetchRequest_blobs by blast
qed

lemma manifestRequest_fetch:
  assumes "manifestRequest w pkg s = (Next (apiBaseURL, namespace, repo, tag, req), s1)"
  shows "fetchRequest apiBaseURL namespace repo req"
proof -
  have "Method req = ''GET''
        \<and> URL req = apiBaseURL @ ''/v2/'' @ namespace @ ''/'' @ repo @ ''/manifests/'' @ tag
        \<and> Header req ''User-Agent'' = Some ''MCP-Registry-Validator/1.0''"
  proof (cases "apiBaseURL = dockerIoAPIBaseURL")
    case True
    then show ?thesis using manifestRequest_docker[of w pkg s namespace repo tag req s1] assms
      by auto
  next
    case False
    then show ?thesis using manifestRequest_anonymous[OF assms] by auto
  qed
  then show ?thesis using fetchRequest_manifests by blast
qed

lemma specificManifestRequest_trace:
  assumes "specificManifestRequest w apiBaseURL namespace repo digest s = (r, s1)"
  shows "\<exists>new. s1 = sends s new
           \<and> (\<forall>q\<in>set new. authorizedFor apiBaseURL namespace repo q)
           \<and> (\<forall>req. r = Inr req \<longrightarrow> authorizedFor apiBaseURL namespace repo (clientSend req))"
proof (cases r)
  case (Inl e)
  show ?thesis
  proof (cases "apiBaseURL = dockerIoAPIBaseURL")
    case True
    obtain t s' where t: "getDockerIoAuthToken w namespace repo s = (t, s')"
      by (cases "getDockerIoAuthToken w namespace repo s") auto
    have "s1 = s \<or> s1 = s'"
      using assms Inl True t
      by (auto simp: specificManifestRequest_def split: sum.splits)
    then have "s1 = sends s [] \<or> s1 = sends s [tokenRequest namespace repo]"
      using getDockerIoAuthToken_sent[OF t] by auto
    then show ?thesis using Inl True authorizedFor_tokenRequest by fastforce
  next
    case False
    then have "s1 = sends s []"
      using assms Inl by (auto simp: specificManifestRequest_def split: sum.splits)
    then show ?thesis using Inl by fastforce
  qed
next
  case (Inr req)
  show ?thesis
  proof (cases "apiBaseURL = dockerIoAPIBaseURL")
    case True
    from specificManifestRequest_docker[of w namespace repo digest s req s1] assms Inr True
    obtain token where "s1 = sends s [tokenRequest namespace repo]"
      and "Header req ''Authorization'' = Some (''Bearer '' @ token)"
      by auto
    moreover have "fetchRequest dockerIoAPIBaseURL namespace repo req"
      using specificManifestRequest_fetch[of w apiBaseURL namespace repo digest s req s1] assms Inr True by simp
    ultimately have "s1 = sends s [tokenRequest namespace repo]"
      and "authorizedFor dockerIoAPIBaseURL namespace repo (clientSend req)"
      using authorizedFor_bearer by auto
    then show ?thesis using Inr True authorizedFor_tokenRequest
      by auto
  next
    case False
    from specificManifestRequest_anonymous[OF False, of w namespace repo digest s req s1] assms Inr
    have "s1 = sends s []" and "Header req ''Authorization'' = None"
      by auto
    moreover have "fetchRequest apiBaseURL namespace repo req"
      using specificManifestRequest_fetch[of w apiBaseURL namespace repo digest s req s1] assms Inr by simp
    ultimately have "s1 = sends s []"
      and "authorizedFor apiBaseURL namespace repo (clientSend req)"
      using False authorizedFor_anonymous by auto
    then show ?thesis using Inr False by fastforce
  qed
qed

lemma getSpecificManifest_trace:
  assumes "getSpecificManifest w apiBaseURL namespace repo digest s = (r, s2)"
  shows "\<exists>new. s2 = sends s new \<and> (\<forall>q\<in>set new. authorizedFor apiBaseURL namespace repo q)"
proof -
  obtain b s1 where b: "specificManifestRequest w apiBaseURL namespace repo digest s = (b, s1)"
    by (cases "specificManifestRequest w apiBaseURL namespace repo digest s") auto
  from specificManifestRequest_trace[OF b] obtain new where
    n: "s1 = sends s new" "\<forall>q\<in>set new. authorizedFor apiBaseURL namespace repo q"
       "\<forall>req. b = Inr req \<longrightarrow> authorizedFor apiBaseURL namespace repo (clientSend req)"
    by blast
  show ?thesis
  proof (cases b)
    case (Inl e)
    then have "s2 = s1" using assms b by (simp add: getSpecificManifest_def)
    then show ?thesis using n by blast
  next
    case (Inr req)
    then have "s2 = sends s1 [clientSend req]"
      using assms b by (auto simp: getSpecificManifest_def Do_eq split: sum.splits if_splits)
    then have "s2 = sends s (new @ [clientSend req])" using n(1) by simp
    moreover have "\<forall>q\<in>set (new @ [clientSend req]). authorizedFor apiBaseURL namespace repo q"
      using n Inr by auto
    ultimately show ?thesis by blast
  qed
qed

lemma imageConfigRequest_trace:
  assumes "imageConfigRequest w apiBaseURL namespace repo digest s = (r, s1)"
  shows "\<exists>new. s1 = sends s new
           \<and> (\<forall>q\<in>set new. authorizedFor apiBaseURL namespace repo q)
           \<and> (\<forall>req. r = Inr req \<longrightarrow> authorizedFor apiBaseURL namespace repo (clientSend req))"
proof (cases r)
  case (Inl e)
  show ?thesis
  proof (cases "apiBaseURL = dockerIoAPIBaseURL")
    case True
    obtain t s' where t: "getDockerIoAuthToken w namespace repo s = (t, s')"
      by (cases "getDockerIoAuthToken w namespace repo s") auto
    have "s1 = s \<or> s1 = s'"
      using assms Inl True t
      by (auto simp: imageConfigRequest_def split: sum.splits)
    then have "s1 = sends s [] \<or> s1 = sends s [tokenRequest namespace repo]"
      using getDockerIoAuthToken_sent[OF t] by auto
    then show ?thesis using Inl True authorizedFor_tokenRequest by fastforce
  next
    case False
    then have "s1 = sends s []"
      using assms Inl by (auto simp: imageConfigRequest_def split: sum.splits)
    then show ?thesis using Inl by fastforce
  qed
next
  case (Inr req)
  show ?thesis
  proof (cases "apiBaseURL = dockerIoAPIBaseURL")
    case True
    from imageConfigRequest_docker[of w namespace repo digest s req s1] assms Inr True
    obtain token where "s1 = sends s [tokenRequest namespace repo]"
      and "Header req ''Authorization'' = Some (''Bearer '' @ token)"
      by auto
    moreover have "fetchRequest dockerIoAPIBaseURL namespace repo req"
      using imageConfigRequest_fetch[of w apiBaseURL namespace repo digest s req s1] assms Inr True by simp
    ultimately have "s1 = sends s [tokenRequest namespace repo]"
      and "authorizedFor dockerIoAPIBaseURL namespace repo (clientSend req)"
      using authorizedFor_bearer by auto
    then show ?thesis using Inr True authorizedFor_tokenRequest
      by auto
  next
    case False
    from imageConfigRequest_anonymous[OF False, of w namespace repo digest s req s1] assms Inr
    have "s1 = sends s []" and "Header req ''Authorization'' = None"
      by auto
    moreover have "fetchRequest apiBaseURL namespace repo req"
      using imageConfigRequest_fetch[of w apiBaseURL namespace repo digest s req s1] assms Inr by simp
    ultimately have "s1 = sends s []"
      and "authorizedFor apiBaseURL namespace repo (clientSend req)"
      using False authorizedFor_anonymous by auto
    then show ?thesis using Inr False by fastforce
  qed
qed

lemma getImageConfig_trace:
  assumes "getImageConfig w apiBaseURL namespace repo digest s = (r, s2)"
  shows "\<exists>new. s2 = sends s new \<and> (\<forall>q\<in>set new. authorizedFor apiBaseURL namespace repo q)"
proof -
  obtain b s1 where b: "imageConfigRequest w apiBaseURL namespace repo digest s = (b, s1)"
    by (cases "imageConfigRequest w apiBaseURL namespace repo digest s") auto
  from imageConfigRequest_trace[OF b] obtain new where
    n: "s1 = sends s new" "\<forall>q\<in>set new. authorizedFor apiBaseURL namespace repo q"
       "\<forall>req. b = Inr req \<longrightarrow> authorizedFor apiBaseURL namespace repo (clientSend req)"
    by blast
  show ?thesis
  proof (cases b)
    case (Inl e)
    then have "s2 = s1" using assms b by (simp add: getImageConfig_def)
    then show ?thesis using n by blast
  next
    case (Inr req)
    then have "s2 = sends s1 [clientSend req]"
      using assms b by (auto simp: getImageConfig_def Do_eq split: sum.splits if_splits)
    then have "s2 = sends s (new @ [clientSend req])" using n(1) by simp
    moreover have "\<forall>q\<in>set (new @ [clientSend req]). authorizedFor apiBaseURL namespace repo q"
      using n Inr by auto
    ultimately show ?thesis by blast
  qed
qed


lemma manifestRequest_trace:
  assumes m: "manifestRequest w pkg s = (x, s1)"
    and r: "resolveAPIBaseURL (if RegistryBaseURL pkg = [] then RegistryURLDocker
                              else RegistryBaseURL pkg) = Inr apiBaseURL"
    and p: "parseImageReference (Identifier pkg) = Inr (namespace, repo)"
  shows "\<exists>new. s1 = sends s new
           \<and> (\<forall>q\<in>set new. authorizedFor apiBaseURL namespace repo q)
           \<and> (\<forall>a n r t req. x = Next (a, n, r, t, req) \<longrightarrow>
                 a = apiBaseURL \<and> n = namespace \<and> r = repo
                 \<and> authorizedFor apiBaseURL namespace repo (clientSend req))"
proof (cases x)
  case (Return e)
  show ?thesis
  proof (cases "apiBaseURL = dockerIoAPIBaseURL")
    case True
    obtain t s' where t: "getDockerIoAuthToken w namespace repo s = (t, s')"
      by (cases "getDockerIoAuthToken w namespace repo s") auto
    have "s1 = s \<or> s1 = s'"
      using m r p Return True t
      by (auto simp: manifestRequest_def Let_def manifestAuth_def
               split: sum.splits prod.splits if_splits)
    then have "s1 = sends s [] \<or> s1 = sends s [tokenRequest namespace repo]"
      using getDockerIoAuthToken_sent[OF t] by auto
    then show ?thesis using Return True authorizedFor_tokenRequest by fastforce
  next
    case False
    then have "s1 = sends s []"
      using m r p Return
      by (auto simp: manifestRequest_def Let_def manifestAuth_anonymous
               split: sum.splits prod.splits if_splits)
    then show ?thesis using Return by fastforce
  qed
next
  case (Next c)
  obtain a n r' t req where c: "c = (a, n, r', t, req)" by (cases c) auto
  have m': "manifestRequest w pkg s = (Next (a, n, r', t, req), s1)" using m Next c by simp
  from manifestRequest_Next[OF m'] r p have eq: "a = apiBaseURL" "n = namespace" "r' = repo"
    by auto
  show ?thesis
  proof (cases "apiBaseURL = dockerIoAPIBaseURL")
    case True
    from manifestRequest_docker[of w pkg s namespace repo t req s1] m' eq True
    obtain token where "s1 = sends s [tokenRequest namespace repo]"
      and "Header req ''Authorization'' = Some (''Bearer '' @ token)"
      by auto
    moreover have "fetchRequest dockerIoAPIBaseURL namespace repo req"
      using manifestRequest_fetch[of w pkg s apiBaseURL namespace repo t req s1] m' eq True by simp
    ultimately have "s1 = sends s [tokenRequest namespace repo]"
      and "authorizedFor dockerIoAPIBaseURL namespace repo (clientSend req)"
      using authorizedFor_bearer by auto
    then show ?thesis using Next c eq True authorizedFor_tokenRequest
      by auto
  next
    case False
    from manifestRequest_anonymous[of w pkg s apiBaseURL namespace repo t req s1] m' eq False
    have "s1 = sends s []" and "Header req ''Authorization'' = None"
      by auto
    moreover have "fetchRequest apiBaseURL namespace repo req"
      using manifestRequest_fetch[of w pkg s apiBaseURL namespace repo t req s1] m' eq by simp
    ultimately have "s1 = sends s []"
      and "authorizedFor apiBaseURL namespace repo (clientSend req)"
      using False authorizedFor_anonymous by auto
    then show ?thesis using Next c eq False by fastforce
  qed
qed

lemma fetchManifest_trace:
  assumes m: "fetchManifest w pkg s = (x, s2)"
    and r: "resolveAPIBaseURL (if RegistryBaseURL pkg = [] then RegistryURLDocker
                              else RegistryBaseURL pkg) = Inr apiBaseURL"
    and p: "parseImageReference (Identifier pkg) = Inr (namespace, repo)"
  shows "\<exists>new. sent s2 = sent s @ new
           \<and> (\<forall>q\<in>set new. authorizedFor apiBaseURL namespace repo q)
           \<and> (\<forall>a n r t manifest. x = Next (a, n, r, t, manifest) \<longrightarrow>
                 a = apiBaseURL \<and> n = namespace \<and> r = repo)"
proof -
  obtain y s1 where y: "manifestRequest w pkg s = (y, s1)"
    by (cases "manifestRequest w pkg s") auto
  from manifestRequest_trace[OF y r p] obtain new where
    n: "s1 = sends s new" "\<forall>q\<in>set new. authorizedFor apiBaseURL namespace repo q"
       "\<forall>a n r t req. y = Next (a, n, r, t, req) \<longrightarrow>
                 a = apiBaseURL \<and> n = namespace \<and> r = repo
                 \<and> authorizedFor apiBaseURL namespace repo (clientSend req)"
    by blast
  show ?thesis
  proof (cases y)
    case (Return e)
    then have "s2 = s1" and "x = Return e" using m y by (auto simp: fetchManifest_def)
    then show ?thesis using n by auto
  next
    case (Next c)
    obtain a na r' t req where c: "c = (a, na, r', t, req)" by (cases c) auto
    have eq: "a = apiBaseURL" "na = namespace" "r' = repo"
      and au: "authorizedFor apiBaseURL namespace repo (clientSend req)"
      using n(3) Next c by auto
    have "sent s2 = sent s1 @ [clientSend req]"
      using m y Next c
      by (auto simp: fetchManifest_def Do_eq Printf_def split: sum.splits if_splits)
    then have "sent s2 = sent s @ (new @ [clientSend req])" using n(1) by simp
    moreover have "\<forall>q\<in>set (new @ [clientSend req]). authorizedFor apiBaseURL namespace repo q"
      using n(2) au by auto
    moreover have "\<forall>a n r t manifest. x = Next (a, n, r, t, manifest) \<longrightarrow>
                 a = apiBaseURL \<and> n = namespace \<and> r = repo"
      using m y Next c eq
      by (auto simp: fetchManifest_def Do_eq split: sum.splits if_splits)
    ultimately show ?thesis by blast
  qed
qed


lemma resolveConfigDigest_trace:
  assumes m: "resolveConfigDigest w pkg s = (x, s3)"
    and r: "resolveAPIBaseURL (if RegistryBaseURL pkg = [] then RegistryURLDocker
                              else RegistryBaseURL pkg) = Inr apiBaseURL"
    and p: "parseImageReference (Identifier pkg) = Inr (namespace, repo)"
  shows "\<exists>new. sent s3 = sent s @ new
           \<and> (\<forall>q\<in>set new. authorizedFor apiBaseURL namespace repo q)
           \<and> (\<forall>a n r t digest. x = Next (a, n, r, t, digest) \<longrightarrow>
                 a = apiBaseURL \<and> n = namespace \<and> r = repo)"
proof -
  obtain y s2 where y: "fetchManifest w pkg s = (y, s2)"
    by (cases "fetchManifest w pkg s") auto
  from fetchManifest_trace[OF y r p] obtain new where
    n: "sent s2 = sent s @ new" "\<forall>q\<in>set new. authorizedFor apiBaseURL namespace repo q"
       "\<forall>a n r t manifest. y = Next (a, n, r, t, manifest) \<longrightarrow>
                 a = apiBaseURL \<and> n = namespace \<and> r = repo"
    by blast
  show ?thesis
  proof (cases y)
    case (Return e)
    then have "s3 = s2" and "x = Return e" using m y by (auto simp: resolveConfigDigest_def)
    then show ?thesis using n by auto
  next
    case (Next c)
    obtain a na r' t manifest where c: "c = (a, na, r', t, manifest)" by (cases c) auto
    have eq: "a = apiBaseURL" "na = namespace" "r' = repo"
      using n(3) Next c by auto
    obtain g s' where g: "getSpecificManifest w apiBaseURL namespace repo
                              (Digest (Manifests manifest ! 0)) s2 = (g, s')"
      by (cases "getSpecificManifest w apiBaseURL namespace repo
                              (Digest (Manifests manifest ! 0)) s2") auto
    from getSpecificManifest_trace[OF g] obtain new' where
      n': "s' = sends s2 new'" "\<forall>q\<in>set new'. authorizedFor apiBaseURL namespace repo q"
      by blast
    have "s3 = s2 \<or> s3 = s'"
      using m y Next c eq g
      by (auto simp: resolveConfigDigest_def split: sum.splits if_splits)
    then have "sent s3 = sent s @ new \<or> sent s3 = sent s @ (new @ new')"
      using n(1) n'(1) by auto
    moreover have "\<forall>q\<in>set (new @ new'). authorizedFor apiBaseURL namespace repo q"
      using n(2) n'(2) by auto
    moreover have "\<forall>a n r t digest. x = Next (a, n, r, t, digest) \<longrightarrow>
                 a = apiBaseURL \<and> n = namespace \<and> r = repo"
      using m y Next c eq
      by (auto simp: resolveConfigDigest_def split: sum.splits if_splits prod.splits)
    ultimately show ?thesis using n(2) by blast
  qed
qed

lemma fetchImageConfig_trace:
  assumes m: "fetchImageConfig w pkg s = (x, s4)"
    and r: "resolveAPIBaseURL (if RegistryBaseURL pkg = [] then RegistryURLDocker
                              else RegistryBaseURL pkg) = Inr apiBaseURL"
    and p: "parseImageReference (Identifier pkg) = Inr (namespace, repo)"
  shows "\<exists>new. sent s4 = sent s @ new
           \<and> (\<forall>q\<in>set new. authorizedFor apiBaseURL namespace repo q)"
proof -
  obtain y s3 where y: "resolveConfigDigest w pkg s = (y, s3)"
    by (cases "resolveConfigDigest w pkg s") auto
  from resolveConfigDigest_trace[OF y r p] obtain new where
    n: "sent s3 = sent s @ new" "\<forall>q\<in>set new. authorizedFor apiBaseURL namespace repo q"
       "\<forall>a n r t digest. y = Next (a, n, r, t, digest) \<longrightarrow>
                 a = apiBaseURL \<and> n = namespace \<and> r = repo"
    by blast
  show ?thesis
  proof (cases y)
    case (Return e)
    then have "s4 = s3" using m y by (auto simp: fetchImageConfig_def)
    then show ?thesis using n by auto
  next
    case (Next c)
    obtain a na r' t digest where c: "c = (a, na, r', t, digest)" by (cases c) auto
    have eq: "a = apiBaseURL" "na = namespace" "r' = repo"
      using n(3) Next c by auto
    obtain g s' where g: "getImageConfig w apiBaseURL namespace repo digest s3 = (g, s')"
      by (cases "getImageConfig w apiBaseURL namespace repo digest s3") auto
    from getImageConfig_trace[OF g] obtain new' where
      n': "s' = sends s3 new'" "\<forall>q\<in>set new'. authorizedFor apiBaseURL namespace repo q"
      by blast
    have "s4 = s'"
      using m y Next c eq g
      by (auto simp: fetchImageConfig_def split: sum.splits)
    then have "sent s4 = sent s @ (new @ new')"
      using n(1) n'(1) by auto
    moreover have "\<forall>q\<in>set (new @ new'). authorizedFor apiBaseURL namespace repo q"
      using n(2) n'(2) by auto
    ultimately show ?thesis by blast
  qed
qed

lemma ValidateOCI_state: "snd (ValidateOCI w pkg serverName s) = snd (fetchImageConfig w pkg s)"
  by (auto simp: ValidateOCI_def split: prod.splits step.splits option.splits)

lemma ValidateOCI_trace:
  assumes m: "ValidateOCI w pkg serverName s = (e, s4)"
    and r: "resolveAPIBaseURL (if RegistryBaseURL pkg = [] then RegistryURLDocker
                              else RegistryBaseURL pkg) = Inr apiBaseURL"
    and p: "parseImageReference (Identifier pkg) = Inr (namespace, repo)"
  shows "\<exists>new. sent s4 = sent s @ new
           \<and> (\<forall>q\<in>set new. authorizedFor apiBaseURL namespace repo q)"
proof -
  obtain y where y: "fetchImageConfig w pkg s = (y, s4)"
    using m ValidateOCI_state[of w pkg serverName s]
    by (cases "fetchImageConfig w pkg s") auto
  from fetchImageConfig_trace[OF y r p] show ?thesis .
qed

section \<open>Authentication\<close>

lemma fetchRequest_not_tokenRequest:
  "fetchRequest apiBaseURL namespace repo q \<Longrightarrow> q \<noteq> tokenRequest namespace' repo'"
  by (auto simp: fetchRequest_def tokenRequest_def)

lemma specificManifestRequest_anonymous_state:
  "apiBaseURL \<noteq> dockerIoAPIBaseURL \<Longrightarrow>
   specificManifestRequest w apiBaseURL namespace repo digest s = (r, s1) \<Longrightarrow> s1 = s"
  by (auto simp: specificManifestRequest_def split: sum.splits)

lemma imageConfigRequest_anonymous_state:
  "apiBaseURL \<noteq> dockerIoAPIBaseURL \<Longrightarrow>
   imageConfigRequest w apiBaseURL namespace repo digest s = (r, s1) \<Longrightarrow> s1 = s"
  by (auto simp: imageConfigRequest_def split: sum.splits)

lemma manifestRequest_anonymous_state:
  assumes "manifestRequest w pkg s = (x, s1)"
    and "resolveAPIBaseURL (if RegistryBaseURL pkg = [] then RegistryURLDocker
                            else RegistryBaseURL pkg) = Inr apiBaseURL"
    and "apiBaseURL \<noteq> dockerIoAPIBaseURL"
  shows "s1 = s"
  using assms
  by (auto simp: manifestRequest_def Let_def manifestAuth_anonymous
           split: sum.splits prod.splits if_splits)

text \<open>
  Claim C5, as stated: for every API base URL other than Docker Hub's, all fetches are
  issued with no \<open>Authorization\<close> header. It fails for a base URL that carries user
  information. \<open>http://localhost:pw@127.0.0.1:5000\<close> is accepted by the loopback fallback
  and resolves to itself; the validator sets no \<open>Authorization\<close> header, but the client
  finds the user \<open>localhost\<close> and the password \<open>pw\<close> in the URL and sends both fetches
  with \<open>Authorization: Basic bG9jYWxob3N0OnB3\<close>. The validation succeeds.
\<close>

theorem userinfo_sends_basic_authorization:
  "resolveAPIBaseURL ''http://localhost:pw@127.0.0.1:5000''
     = Inr ''http://localhost:pw@127.0.0.1:5000''
   \<and> ''http://localhost:pw@127.0.0.1:5000'' \<noteq> dockerIoAPIBaseURL
   \<and> ValidateOCI credentialRegistry
         (testPackage ''http://localhost:pw@127.0.0.1:5000'' ''v1.0.0'')
         ''com.example/test-server'' start
       = (None,
          \<lparr>sent =
             [\<lparr>Method = ''GET'',
               URL = ''http://localhost:pw@127.0.0.1:5000/v2/library/test-image/manifests/v1.0.0'',
               Header = [''Accept'' \<mapsto> ''application/vnd.docker.distribution.manifest.v2+json,application/vnd.oci.image.manifest.v1+json'',
                         ''User-Agent'' \<mapsto> ''MCP-Registry-Validator/1.0'',
                         ''Authorization'' \<mapsto> ''Basic bG9jYWxob3N0OnB3'']\<rparr>,
              \<lparr>Method = ''GET'',
               URL = ''http://localhost:pw@127.0.0.1:5000/v2/library/test-image/blobs/sha256:config123'',
               Header = [''Accept'' \<mapsto> ''application/vnd.docker.distribution.manifest.v2+json'',
                         ''User-Agent'' \<mapsto> ''MCP-Registry-Validator/1.0'',
                         ''Authorization'' \<mapsto> ''Basic bG9jYWxob3N0OnB3'']\<rparr>],
           logged = []\<rparr>)"
proof (intro conjI)
  show "resolveAPIBaseURL ''http://localhost:pw@127.0.0.1:5000''
     = Inr ''http://localhost:pw@127.0.0.1:5000''"
    by (simp add: resolveAPIBaseURL_def supportedRegistries_def RegistryURL_defs HasPrefix_def)
  show "''http://localhost:pw@127.0.0.1:5000'' \<noteq> dockerIoAPIBaseURL"
    by (simp add: dockerIoAPIBaseURL_def)
  show "ValidateOCI credentialRegistry
         (testPackage ''http://localhost:pw@127.0.0.1:5000'' ''v1.0.0'')
         ''com.example/test-server'' start
       = (None,
          \<lparr>sent =
             [\<lparr>Method = ''GET'',
               URL = ''http://localhost:pw@127.0.0.1:5000/v2/library/test-image/manifests/v1.0.0'',
               Header = [''Accept'' \<mapsto> ''application/vnd.docker.distribution.manifest.v2+json,application/vnd.oci.image.manifest.v1+json'',
                         ''User-Agent'' \<mapsto> ''MCP-Registry-Validator/1.0'',
                         ''Authorization'' \<mapsto> ''Basic bG9jYWxob3N0OnB3'']\<rparr>,
              \<lparr>Method = ''GET'',
               URL = ''http://localhost:pw@127.0.0.1:5000/v2/library/test-image/blobs/sha256:config123'',
               Header = [''Accept'' \<mapsto> ''application/vnd.docker.distribution.manifest.v2+json'',
                         ''User-Agent'' \<mapsto> ''MCP-Registry-Validator/1.0'',
                         ''Authorization'' \<mapsto> ''Basic bG9jYWxob3N0OnB3'']\<rparr>],
           logged = []\<rparr>)"
    by (simp add: run_defs mock_defs credentialRegistry_def)
qed

text \<open>
  Claim C5, amended. Only Docker Hub's API base URL gets the token handshake. A registry
  base URL resolves to it exactly when it is empty, \<open>https://docker.io\<close> or
  \<open>https://hub.docker.com\<close>. In a run of \<open>ValidateOCI\<close> on that API base URL every request
  sent is either the token request (a GET of
  \<open>https://auth.docker.io/token?service=registry.docker.io&scope=repository:{namespace}/{repo}:pull\<close>
  that carries no header, and that the client sends as it is) or a fetch of a manifest or
  a blob that carries \<open>Authorization: Bearer\<close> and a token; each of the three fetches
  (first manifest, specific manifest, image config) is built by sending the token
  request first, and the bearer token it carries is the token decoded from the 200
  response to that request. In a run on any other API base URL no token is requested
  and the validator sets no \<open>Authorization\<close> header: building a request sends nothing
  and gives a request without that header, every request sent is a fetch of a manifest
  or a blob under that API base URL, none is the token request, and every one whose URL
  carries no user information goes out with no \<open>Authorization\<close> header.
\<close>

theorem docker_only_authentication:
  assumes r: "resolveAPIBaseURL (if RegistryBaseURL pkg = [] then RegistryURLDocker
                                 else RegistryBaseURL pkg) = Inr apiBaseURL"
    and p: "parseImageReference (Identifier pkg) = Inr (namespace, repo)"
    and v: "ValidateOCI w pkg serverName s = (e, s')"
  shows "(apiBaseURL = dockerIoAPIBaseURL)
           = (RegistryBaseURL pkg = [] \<or> RegistryBaseURL pkg = RegistryURLDocker
              \<or> RegistryBaseURL pkg = RegistryURLDockerHub)
    \<and> (\<exists>new. sent s' = sent s @ new
          \<and> (apiBaseURL = dockerIoAPIBaseURL \<longrightarrow>
                (\<forall>q\<in>set new. q = tokenRequest namespace repo
                    \<or> (fetchRequest apiBaseURL namespace repo q
                        \<and> (\<exists>token. Header q ''Authorization'' = Some (''Bearer '' @ token)))))
          \<and> (apiBaseURL \<noteq> dockerIoAPIBaseURL \<longrightarrow>
                (\<forall>q\<in>set new. q \<noteq> tokenRequest namespace repo
                    \<and> fetchRequest apiBaseURL namespace repo q
                    \<and> (urlUser (URL q) = None \<longrightarrow> Header q ''Authorization'' = None))))
    \<and> tokenRequest namespace repo
        = \<lparr>Method = ''GET'',
           URL = ''https://auth.docker.io/token?service=registry.docker.io&scope=repository:''
                   @ namespace @ ''/'' @ repo @ '':pull'',
           Header = Map.empty\<rparr>
    \<and> clientSend (tokenRequest namespace repo) = tokenRequest namespace repo
    \<and> (\<forall>s0 tag req s1.
          manifestRequest w pkg s0 = (Next (dockerIoAPIBaseURL, namespace, repo, tag, req), s1) \<longrightarrow>
            s1 = sends s0 [tokenRequest namespace repo]
            \<and> clientSend req = req
            \<and> (\<exists>resp authResp.
                  roundTrip w (sent s0) (tokenRequest namespace repo) = Inr resp
                  \<and> StatusCode resp = 200 \<and> decodeAuth w (Body resp) = Inr authResp
                  \<and> Header req ''Authorization'' = Some (''Bearer '' @ Token authResp)))
    \<and> (\<forall>s0 digest req s1.
          specificManifestRequest w dockerIoAPIBaseURL namespace repo digest s0 = (Inr req, s1) \<longrightarrow>
            s1 = sends s0 [tokenRequest namespace repo]
            \<and> clientSend req = req
            \<and> (\<exists>resp authResp.
                  roundTrip w (sent s0) (tokenRequest namespace repo) = Inr resp
                  \<and> StatusCode resp = 200 \<and> decodeAuth w (Body resp) = Inr authResp
                  \<and> Header req ''Authorization'' = Some (''Bearer '' @ Token authResp)))
    \<and> (\<forall>s0 digest req s1.
          imageConfigRequest w dockerIoAPIBaseURL namespace repo digest s0 = (Inr req, s1) \<longrightarrow>
            s1 = sends s0 [tokenRequest namespace repo]
            \<and> clientSend req = req
            \<and> (\<exists>resp authResp.
                  roundTrip w (sent s0) (tokenRequest namespace repo) = Inr resp
                  \<and> StatusCode resp = 200 \<and> decodeAuth w (Body resp) = Inr authResp
                  \<and> Header req ''Authorization'' = Some (''Bearer '' @ Token authResp)))
    \<and> (apiBaseURL \<noteq> dockerIoAPIBaseURL \<longrightarrow>
          (\<forall>s0 x s1. manifestRequest w pkg s0 = (x, s1) \<longrightarrow>
             s1 = s0
             \<and> (\<forall>tag req. x = Next (apiBaseURL, namespace, repo, tag, req) \<longrightarrow>
                   Header req ''Authorization'' = None))
          \<and> (\<forall>s0 digest x s1.
                specificManifestRequest w apiBaseURL namespace repo digest s0 = (x, s1) \<longrightarrow>
                  s1 = s0 \<and> (\<forall>req. x = Inr req \<longrightarrow> Header req ''Authorization'' = None))
          \<and> (\<forall>s0 digest x s1.
                imageConfigRequest w apiBaseURL namespace repo digest s0 = (x, s1) \<longrightarrow>
                  s1 = s0 \<and> (\<forall>req. x = Inr req \<longrightarrow> Header req ''Authorization'' = None)))"
proof (intro conjI)
  show "(apiBaseURL = dockerIoAPIBaseURL)
           = (RegistryBaseURL pkg = [] \<or> RegistryBaseURL pkg = RegistryURLDocker
              \<or> RegistryBaseURL pkg = RegistryURLDockerHub)"
    using resolveAPIBaseURL_docker[OF r] by (auto simp: RegistryURL_defs)
  from ValidateOCI_trace[OF v r p] obtain new where
    n: "sent s' = sent s @ new" "\<forall>q\<in>set new. authorizedFor apiBaseURL namespace repo q"
    by blast
  have d: "apiBaseURL = dockerIoAPIBaseURL \<longrightarrow>
                (\<forall>q\<in>set new. q = tokenRequest namespace repo
                    \<or> (fetchRequest apiBaseURL namespace repo q
                        \<and> (\<exists>token. Header q ''Authorization'' = Some (''Bearer '' @ token))))"
    using n(2) by (auto simp: authorizedFor_def)
  have a: "apiBaseURL \<noteq> dockerIoAPIBaseURL \<longrightarrow>
                (\<forall>q\<in>set new. q \<noteq> tokenRequest namespace repo
                    \<and> fetchRequest apiBaseURL namespace repo q
                    \<and> (urlUser (URL q) = None \<longrightarrow> Header q ''Authorization'' = None))"
    using n(2) fetchRequest_not_tokenRequest[of apiBaseURL namespace repo _ namespace repo]
    by (simp add: authorizedFor_def)
  show "\<exists>new. sent s' = sent s @ new
          \<and> (apiBaseURL = dockerIoAPIBaseURL \<longrightarrow>
                (\<forall>q\<in>set new. q = tokenRequest namespace repo
                    \<or> (fetchRequest apiBaseURL namespace repo q
                        \<and> (\<exists>token. Header q ''Authorization'' = Some (''Bearer '' @ token)))))
          \<and> (apiBaseURL \<noteq> dockerIoAPIBaseURL \<longrightarrow>
                (\<forall>q\<in>set new. q \<noteq> tokenRequest namespace repo
                    \<and> fetchRequest apiBaseURL namespace repo q
                    \<and> (urlUser (URL q) = None \<longrightarrow> Header q ''Authorization'' = None)))"
    using n(1) d a by blast
  show "tokenRequest namespace repo
        = \<lparr>Method = ''GET'',
           URL = ''https://auth.docker.io/token?service=registry.docker.io&scope=repository:''
                   @ namespace @ ''/'' @ repo @ '':pull'',
           Header = Map.empty\<rparr>"
    by (simp add: tokenRequest_def authURL_def)
  show "clientSend (tokenRequest namespace repo) = tokenRequest namespace repo"
    by simp
  show "\<forall>s0 tag req s1.
          manifestRequest w pkg s0 = (Next (dockerIoAPIBaseURL, namespace, repo, tag, req), s1) \<longrightarrow>
            s1 = sends s0 [tokenRequest namespace repo]
            \<and> clientSend req = req
            \<and> (\<exists>resp authResp.
                  roundTrip w (sent s0) (tokenRequest namespace repo) = Inr resp
                  \<and> StatusCode resp = 200 \<and> decodeAuth w (Body resp) = Inr authResp
                  \<and> Header req ''Authorization'' = Some (''Bearer '' @ Token authResp))"
  proof (intro allI impI)
    fix s0 tag req s1
    assume m: "manifestRequest w pkg s0 = (Next (dockerIoAPIBaseURL, namespace, repo, tag, req), s1)"
    from manifestRequest_docker[OF m] obtain resp authResp where
      h: "s1 = sends s0 [tokenRequest namespace repo]"
         "roundTrip w (sent s0) (tokenRequest namespace repo) = Inr resp"
         "StatusCode resp = 200" "decodeAuth w (Body resp) = Inr authResp"
         "Header req ''Authorization'' = Some (''Bearer '' @ Token authResp)"
      by auto
    then show "s1 = sends s0 [tokenRequest namespace repo]
            \<and> clientSend req = req
            \<and> (\<exists>resp authResp.
                  roundTrip w (sent s0) (tokenRequest namespace repo) = Inr resp
                  \<and> StatusCode resp = 200 \<and> decodeAuth w (Body resp) = Inr authResp
                  \<and> Header req ''Authorization'' = Some (''Bearer '' @ Token authResp))"
      using clientSend_Bearer[OF h(5)] by blast
  qed
  show "\<forall>s0 digest req s1.
          specificManifestRequest w dockerIoAPIBaseURL namespace repo digest s0 = (Inr req, s1) \<longrightarrow>
            s1 = sends s0 [tokenRequest namespace repo]
            \<and> clientSend req = req
            \<and> (\<exists>resp authResp.
                  roundTrip w (sent s0) (tokenRequest namespace repo) = Inr resp
                  \<and> StatusCode resp = 200 \<and> decodeAuth w (Body resp) = Inr authResp
                  \<and> Header req ''Authorization'' = Some (''Bearer '' @ Token authResp))"
  proof (intro allI impI)
    fix s0 digest req s1
    assume m: "specificManifestRequest w dockerIoAPIBaseURL namespace repo digest s0 = (Inr req, s1)"
    from specificManifestRequest_docker[OF m] obtain resp authResp where
      h: "s1 = sends s0 [tokenRequest namespace repo]"
         "roundTrip w (sent s0) (tokenRequest namespace repo) = Inr resp"
         "StatusCode resp = 200" "decodeAuth w (Body resp) = Inr authResp"
         "Header req ''Authorization'' = Some (''Bearer '' @ Token authResp)"
      by auto
    then show "s1 = sends s0 [tokenRequest namespace repo]
            \<and> clientSend req = req
            \<and> (\<exists>resp authResp.
                  roundTrip w (sent s0) (tokenRequest namespace repo) = Inr resp
                  \<and> StatusCode resp = 200 \<and> decodeAuth w (Body resp) = Inr authResp
                  \<and> Header req ''Authorization'' = Some (''Bearer '' @ Token authResp))"
      using clientSend_Bearer[OF h(5)] by blast
  qed
  show "\<forall>s0 digest req s1.
          imageConfigRequest w dockerIoAPIBaseURL namespace repo digest s0 = (Inr req, s1) \<longrightarrow>
            s1 = sends s0 [tokenRequest namespace repo]
            \<and> clientSend req = req
            \<and> (\<exists>resp authResp.
                  roundTrip w (sent s0) (tokenRequest namespace repo) = Inr resp
                  \<and> StatusCode resp = 200 \<and> decodeAuth w (Body resp) = Inr authResp
                  \<and> Header req ''Authorization'' = Some (''Bearer '' @ Token authResp))"
  proof (intro allI impI)
    fix s0 digest req s1
    assume m: "imageConfigRequest w dockerIoAPIBaseURL namespace repo digest s0 = (Inr req, s1)"
    from imageConfigRequest_docker[OF m] obtain resp authResp where
      h: "s1 = sends s0 [tokenRequest namespace repo]"
         "roundTrip w (sent s0) (tokenRequest namespace repo) = Inr resp"
         "StatusCode resp = 200" "decodeAuth w (Body resp) = Inr authResp"
         "Header req ''Authorization'' = Some (''Bearer '' @ Token authResp)"
      by auto
    then show "s1 = sends s0 [tokenRequest namespace repo]
            \<and> clientSend req = req
            \<and> (\<exists>resp authResp.
                  roundTrip w (sent s0) (tokenRequest namespace repo) = Inr resp
                  \<and> StatusCode resp = 200 \<and> decodeAuth w (Body resp) = Inr authResp
                  \<and> Header req ''Authorization'' = Some (''Bearer '' @ Token authResp))"
      using clientSend_Bearer[OF h(5)] by blast
  qed
  show "apiBaseURL \<noteq> dockerIoAPIBaseURL \<longrightarrow>
          (\<forall>s0 x s1. manifestRequest w pkg s0 = (x, s1) \<longrightarrow>
             s1 = s0
             \<and> (\<forall>tag req. x = Next (apiBaseURL, namespace, repo, tag, req) \<longrightarrow>
                   Header req ''Authorization'' = None))
          \<and> (\<forall>s0 digest x s1.
                specificManifestRequest w apiBaseURL namespace repo digest s0 = (x, s1) \<longrightarrow>
                  s1 = s0 \<and> (\<forall>req. x = Inr req \<longrightarrow> Header req ''Authorization'' = None))
          \<and> (\<forall>s0 digest x s1.
                imageConfigRequest w apiBaseURL namespace repo digest s0 = (x, s1) \<longrightarrow>
                  s1 = s0 \<and> (\<forall>req. x = Inr req \<longrightarrow> Header req ''Authorization'' = None))"
  proof (intro impI conjI allI)
    fix s0 x s1
    assume n: "apiBaseURL \<noteq> dockerIoAPIBaseURL" and m: "manifestRequest w pkg s0 = (x, s1)"
    show "s1 = s0" using manifestRequest_anonymous_state[OF m r n] .
    fix tag req
    assume "x = Next (apiBaseURL, namespace, repo, tag, req)"
    then show "Header req ''Authorization'' = None"
      using manifestRequest_anonymous[of w pkg s0 apiBaseURL namespace repo tag req s1] m n
      by auto
  next
    fix s0 digest x s1
    assume n: "apiBaseURL \<noteq> dockerIoAPIBaseURL"
      and m: "specificManifestRequest w apiBaseURL namespace repo digest s0 = (x, s1)"
    show "s1 = s0" using specificManifestRequest_anonymous_state[OF n m] .
    fix req
    assume "x = Inr req"
    then show "Header req ''Authorization'' = None"
      using specificManifestRequest_anonymous[OF n, of w namespace repo digest s0 req s1] m
      by auto
  next
    fix s0 digest x s1
    assume n: "apiBaseURL \<noteq> dockerIoAPIBaseURL"
      and m: "imageConfigRequest w apiBaseURL namespace repo digest s0 = (x, s1)"
    show "s1 = s0" using imageConfigRequest_anonymous_state[OF n m] .
    fix req
    assume "x = Inr req"
    then show "Header req ''Authorization'' = None"
      using imageConfigRequest_anonymous[OF n, of w namespace repo digest s0 req s1] m
      by auto
  qed
qed

theorem docker_only_authentication_witness:
  "list_all (\<lambda>q. q = tokenRequest ''library'' ''test-image''
                  \<or> (fetchRequest dockerIoAPIBaseURL ''library'' ''test-image'' q
                      \<and> (\<exists>token. Header q ''Authorization'' = Some (''Bearer '' @ token))))
     (sent (snd (ValidateOCI dockerHub (testPackage [] ''multi'') ''com.example/test-server''
                   start)))
   \<and> map URL (sent (snd (ValidateOCI dockerHub (testPackage [] ''multi'')
                            ''com.example/test-server'' start)))
       = [''https://auth.docker.io/token?service=registry.docker.io&scope=repository:library/test-image:pull'',
          ''https://registry-1.docker.io/v2/library/test-image/manifests/multi'',
          ''https://auth.docker.io/token?service=registry.docker.io&scope=repository:library/test-image:pull'',
          ''https://registry-1.docker.io/v2/library/test-image/manifests/sha256:amd64'',
          ''https://auth.docker.io/token?service=registry.docker.io&scope=repository:library/test-image:pull'',
          ''https://registry-1.docker.io/v2/library/test-image/blobs/sha256:config123'']
   \<and> list_all (\<lambda>q. q \<noteq> tokenRequest ''library'' ''test-image''
                  \<and> fetchRequest ''http://127.0.0.1:5000'' ''library'' ''test-image'' q
                  \<and> (urlUser (URL q) = None \<longrightarrow> Header q ''Authorization'' = None))
     (sent (snd (ValidateOCI localRegistry (testPackage ''http://127.0.0.1:5000'' ''v1.0.0'')
                   ''com.example/test-server'' start)))
   \<and> map (\<lambda>q. Header q ''Authorization'')
        (sent (snd (ValidateOCI localRegistry (testPackage ''http://127.0.0.1:5000'' ''v1.0.0'')
                      ''com.example/test-server'' start)))
       = [None, None]
   \<and> list_all (\<lambda>q. q \<noteq> tokenRequest ''library'' ''test-image''
                  \<and> fetchRequest ''http://localhost:pw@127.0.0.1:5000'' ''library'' ''test-image'' q
                  \<and> (urlUser (URL q) = None \<longrightarrow> Header q ''Authorization'' = None))
     (sent (snd (ValidateOCI credentialRegistry
                   (testPackage ''http://localhost:pw@127.0.0.1:5000'' ''v1.0.0'')
                   ''com.example/test-server'' start)))"
proof -
  let ?d = "ValidateOCI dockerHub (testPackage [] ''multi'') ''com.example/test-server'' start"
  let ?l = "ValidateOCI localRegistry (testPackage ''http://127.0.0.1:5000'' ''v1.0.0'')
              ''com.example/test-server'' start"
  let ?c = "ValidateOCI credentialRegistry
              (testPackage ''http://localhost:pw@127.0.0.1:5000'' ''v1.0.0'')
              ''com.example/test-server'' start"
  have p: "parseImageReference (Identifier (testPackage u t)) = Inr (''library'', ''test-image'')"
    for u t
    by (simp add: testPackage_def parseImageReference_def Split_def)
  have r1: "resolveAPIBaseURL
              (if RegistryBaseURL (testPackage [] ''multi'') = [] then RegistryURLDocker
               else RegistryBaseURL (testPackage [] ''multi'')) = Inr dockerIoAPIBaseURL"
    by (simp add: testPackage_def resolveAPIBaseURL_def supportedRegistries_def)
  have r2: "resolveAPIBaseURL
              (if RegistryBaseURL (testPackage ''http://127.0.0.1:5000'' ''v1.0.0'') = []
               then RegistryURLDocker
               else RegistryBaseURL (testPackage ''http://127.0.0.1:5000'' ''v1.0.0''))
              = Inr ''http://127.0.0.1:5000''"
    by (simp add: testPackage_def resolveAPIBaseURL_def supportedRegistries_def RegistryURL_defs
          HasPrefix_def)
  have r3: "resolveAPIBaseURL
              (if RegistryBaseURL (testPackage ''http://localhost:pw@127.0.0.1:5000'' ''v1.0.0'') = []
               then RegistryURLDocker
               else RegistryBaseURL (testPackage ''http://localhost:pw@127.0.0.1:5000'' ''v1.0.0''))
              = Inr ''http://localhost:pw@127.0.0.1:5000''"
    by (simp add: testPackage_def resolveAPIBaseURL_def supportedRegistries_def RegistryURL_defs
          HasPrefix_def)
  have v1: "?d = (fst ?d, snd ?d)" by simp
  have v2: "?l = (fst ?l, snd ?l)" by simp
  have v3: "?c = (fst ?c, snd ?c)" by simp
  have n2: "''http://127.0.0.1:5000'' \<noteq> dockerIoAPIBaseURL"
    by (simp add: dockerIoAPIBaseURL_def)
  have n3: "''http://localhost:pw@127.0.0.1:5000'' \<noteq> dockerIoAPIBaseURL"
    by (simp add: dockerIoAPIBaseURL_def)
  have a: "list_all (\<lambda>q. q = tokenRequest ''library'' ''test-image''
                  \<or> (fetchRequest dockerIoAPIBaseURL ''library'' ''test-image'' q
                      \<and> (\<exists>token. Header q ''Authorization'' = Some (''Bearer '' @ token))))
             (sent (snd ?d))"
    using docker_only_authentication[OF r1 p v1]
    by (auto simp: start_def list_all_iff)
  have b: "list_all (\<lambda>q. q \<noteq> tokenRequest ''library'' ''test-image''
                  \<and> fetchRequest ''http://127.0.0.1:5000'' ''library'' ''test-image'' q
                  \<and> (urlUser (URL q) = None \<longrightarrow> Header q ''Authorization'' = None))
             (sent (snd ?l))"
    using docker_only_authentication[OF r2 p v2] n2
    by (auto simp: start_def list_all_iff)
  have c: "list_all (\<lambda>q. q \<noteq> tokenRequest ''library'' ''test-image''
                  \<and> fetchRequest ''http://localhost:pw@127.0.0.1:5000'' ''library'' ''test-image'' q
                  \<and> (urlUser (URL q) = None \<longrightarrow> Header q ''Authorization'' = None))
             (sent (snd ?c))"
    using docker_only_authentication[OF r3 p v3] n3
    by (auto simp: start_def list_all_iff)
  have d: "map URL (sent (snd ?d))
       = [''https://auth.docker.io/token?service=registry.docker.io&scope=repository:library/test-image:pull'',
          ''https://registry-1.docker.io/v2/library/test-image/manifests/multi'',
          ''https://auth.docker.io/token?service=registry.docker.io&scope=repository:library/test-image:pull'',
          ''https://registry-1.docker.io/v2/library/test-image/manifests/sha256:amd64'',
          ''https://auth.docker.io/token?service=registry.docker.io&scope=repository:library/test-image:pull'',
          ''https://registry-1.docker.io/v2/library/test-image/blobs/sha256:config123'']"
    by (simp add: run_defs mock_defs dockerHub_def)
  have e: "map (\<lambda>q. Header q ''Authorization'') (sent (snd ?l)) = [None, None]"
    by (simp add: run_defs mock_defs localRegistry_def)
  show ?thesis using a b c d e by simp
qed

section \<open>The first manifest fetch\<close>

text \<open>
  Claim C2. Let the first manifest request be built and answered with a response. If its
  status is 404 or 401, \<open>ValidateOCI\<close> returns the \<open>not found\<close> error that names
  \<open>namespace/repo:tag\<close> and the status. If it is 429, \<open>ValidateOCI\<close> returns \<open>nil\<close> at once:
  the manifest request is the last one sent, and a warning is logged. Any other status
  but 200 gives \<open>failed to fetch OCI manifest\<close> with the status. With status 200 the body
  is decoded; a decoding error gives \<open>failed to parse OCI manifest\<close>, and a decoded
  manifest is what the rest of the function goes on with.
\<close>

theorem first_manifest_status:
  assumes m: "manifestRequest w pkg s = (Next (apiBaseURL, namespace, repo, tag, req), s1)"
    and d: "roundTrip w (sent s1) (clientSend req) = Inr resp"
  shows "(StatusCode resp = 404 \<or> StatusCode resp = 401 \<longrightarrow>
            ValidateOCI w pkg serverName s
              = (Some (''OCI image '' @ [CHR 0x27] @ namespace @ ''/'' @ repo @ '':'' @ tag
                         @ [CHR 0x27] @ '' not found (status: '' @ formatInt (StatusCode resp)
                         @ '')''),
                 sends s1 [clientSend req]))
    \<and> (StatusCode resp = 429 \<longrightarrow>
            ValidateOCI w pkg serverName s
              = (None,
                 Printf (''Warning: Rate limited when accessing OCI image '' @ [CHR 0x27]
                           @ namespace @ ''/'' @ repo @ '':'' @ tag @ [CHR 0x27]
                           @ ''. Skipping validation.'') (sends s1 [clientSend req])))
    \<and> (StatusCode resp \<noteq> 404 \<and> StatusCode resp \<noteq> 401 \<and> StatusCode resp \<noteq> 429
         \<and> StatusCode resp \<noteq> 200 \<longrightarrow>
            ValidateOCI w pkg serverName s
              = (Some (''failed to fetch OCI manifest (status: '' @ formatInt (StatusCode resp)
                         @ '')''),
                 sends s1 [clientSend req]))
    \<and> (\<forall>e. StatusCode resp = 200 \<and> decodeManifest w (Body resp) = Inl e \<longrightarrow>
            ValidateOCI w pkg serverName s
              = (Some (''failed to parse OCI manifest: '' @ e), sends s1 [clientSend req]))
    \<and> (\<forall>manifest. StatusCode resp = 200 \<and> decodeManifest w (Body resp) = Inr manifest \<longrightarrow>
            fetchManifest w pkg s
              = (Next (apiBaseURL, namespace, repo, tag, manifest), sends s1 [clientSend req]))"
  using m d
  by (simp add: ValidateOCI_def fetchImageConfig_def resolveConfigDigest_def fetchManifest_def
        Do_eq)

theorem first_manifest_status_witness:
  "fst (ValidateOCI localRegistry (testPackage ''http://127.0.0.1:5000'' ''private'')
          ''com.example/test-server'' start)
     = Some (''OCI image '' @ [CHR 0x27] @ ''library/test-image:private'' @ [CHR 0x27]
               @ '' not found (status: 401)'')
   \<and> fst (ValidateOCI localRegistry (testPackage ''http://127.0.0.1:5000'' ''nonesuch'')
          ''com.example/test-server'' start)
     = Some (''OCI image '' @ [CHR 0x27] @ ''library/test-image:nonesuch'' @ [CHR 0x27]
               @ '' not found (status: 404)'')
   \<and> ValidateOCI localRegistry (testPackage ''http://127.0.0.1:5000'' ''limited'')
          ''com.example/test-server'' start
     = (None,
        \<lparr>sent = [\<lparr>Method = ''GET'',
                   URL = ''http://127.0.0.1:5000/v2/library/test-image/manifests/limited'',
                   Header = [''Accept'' \<mapsto> ''application/vnd.docker.distribution.manifest.v2+json,application/vnd.oci.image.manifest.v1+json'',
                             ''User-Agent'' \<mapsto> ''MCP-Registry-Validator/1.0'']\<rparr>],
         logged = [''Warning: Rate limited when accessing OCI image '' @ [CHR 0x27]
                     @ ''library/test-image:limited'' @ [CHR 0x27] @ ''. Skipping validation.'']\<rparr>)
   \<and> fst (ValidateOCI localRegistry (testPackage ''http://127.0.0.1:5000'' ''down'')
          ''com.example/test-server'' start)
     = Some ''failed to fetch OCI manifest (status: 503)''
   \<and> fst (ValidateOCI localRegistry (testPackage ''http://127.0.0.1:5000'' ''broken'')
          ''com.example/test-server'' start)
     = Some ''failed to parse OCI manifest: invalid character''"
proof -
  note m = localRegistry_manifestRequest
  have h: "\<not> HasPrefix (''http://127.0.0.1:5000/v2/library/test-image/manifests/'' @ tag)
               dockerIoAPIBaseURL" for tag
    by (simp add: HasPrefix_def dockerIoAPIBaseURL_def)
  have d1: "roundTrip localRegistry (sent start)
              (clientSend \<lparr>Method = ''GET'',
               URL = ''http://127.0.0.1:5000/v2/library/test-image/manifests/'' @ ''private'',
               Header = [''Accept'' \<mapsto> ''application/vnd.docker.distribution.manifest.v2+json,application/vnd.oci.image.manifest.v1+json'',
                         ''User-Agent'' \<mapsto> ''MCP-Registry-Validator/1.0'']\<rparr>)
            = Inr \<lparr>StatusCode = 401, Body = []\<rparr>"
    using h[of "''private''"] by (simp add: localRegistry_roundTrip client_defs)
  have d2: "roundTrip localRegistry (sent start)
              (clientSend \<lparr>Method = ''GET'',
               URL = ''http://127.0.0.1:5000/v2/library/test-image/manifests/'' @ ''nonesuch'',
               Header = [''Accept'' \<mapsto> ''application/vnd.docker.distribution.manifest.v2+json,application/vnd.oci.image.manifest.v1+json'',
                         ''User-Agent'' \<mapsto> ''MCP-Registry-Validator/1.0'']\<rparr>)
            = Inr \<lparr>StatusCode = 404, Body = []\<rparr>"
    using h[of "''nonesuch''"] by (simp add: localRegistry_roundTrip client_defs)
  have d3: "roundTrip localRegistry (sent start)
              (clientSend \<lparr>Method = ''GET'',
               URL = ''http://127.0.0.1:5000/v2/library/test-image/manifests/'' @ ''limited'',
               Header = [''Accept'' \<mapsto> ''application/vnd.docker.distribution.manifest.v2+json,application/vnd.oci.image.manifest.v1+json'',
                         ''User-Agent'' \<mapsto> ''MCP-Registry-Validator/1.0'']\<rparr>)
            = Inr \<lparr>StatusCode = 429, Body = []\<rparr>"
    using h[of "''limited''"] by (simp add: localRegistry_roundTrip client_defs)
  have d4: "roundTrip localRegistry (sent start)
              (clientSend \<lparr>Method = ''GET'',
               URL = ''http://127.0.0.1:5000/v2/library/test-image/manifests/'' @ ''down'',
               Header = [''Accept'' \<mapsto> ''application/vnd.docker.distribution.manifest.v2+json,application/vnd.oci.image.manifest.v1+json'',
                         ''User-Agent'' \<mapsto> ''MCP-Registry-Validator/1.0'']\<rparr>)
            = Inr \<lparr>StatusCode = 503, Body = []\<rparr>"
    using h[of "''down''"] by (simp add: localRegistry_roundTrip client_defs)
  have d5: "roundTrip localRegistry (sent start)
              (clientSend \<lparr>Method = ''GET'',
               URL = ''http://127.0.0.1:5000/v2/library/test-image/manifests/'' @ ''broken'',
               Header = [''Accept'' \<mapsto> ''application/vnd.docker.distribution.manifest.v2+json,application/vnd.oci.image.manifest.v1+json'',
                         ''User-Agent'' \<mapsto> ''MCP-Registry-Validator/1.0'']\<rparr>)
            = Inr \<lparr>StatusCode = 200, Body = ''<html>''\<rparr>"
    using h[of "''broken''"] by (simp add: localRegistry_roundTrip client_defs)
  have e5: "decodeManifest localRegistry ''<html>'' = Inl ''invalid character''"
    by (simp add: localRegistry_def mockWorld_def mockDecodeManifest_def)
  show ?thesis
    using first_manifest_status[OF m d1, of "''com.example/test-server''"]
          first_manifest_status[OF m d2, of "''com.example/test-server''"]
          first_manifest_status[OF m d3, of "''com.example/test-server''"]
          first_manifest_status[OF m d4, of "''com.example/test-server''"]
          first_manifest_status[OF m d5, of "''com.example/test-server''"] e5
    by (simp add: formatInt_codes Printf_def sends_def start_def client_defs)
qed

section \<open>The later fetches\<close>

text \<open>
  Claim C10. The classification of the first manifest fetch is not repeated for the two
  later fetches. Whenever the request for the specific manifest, or for the image config,
  is answered with a status other than 200 (429, 404 and 401 among them),
  \<open>getSpecificManifest\<close> returns \<open>specific manifest not found\<close> and \<open>getImageConfig\<close>
  returns \<open>image config not found\<close>, each with the status; and whenever one of the two
  returns an error in a run of \<open>ValidateOCI\<close>, the run returns that error, wrapped. A 429
  at either place makes the validation fail.
\<close>

theorem later_fetches_fail_on_any_status:
  "(specificManifestRequest w apiBaseURL namespace repo digest s = (Inr req, s1)
       \<and> roundTrip w (sent s1) (clientSend req) = Inr resp \<and> StatusCode resp \<noteq> 200 \<longrightarrow>
         getSpecificManifest w apiBaseURL namespace repo digest s
           = (Inl (''specific manifest not found (status: '' @ formatInt (StatusCode resp)
                     @ '')''),
              sends s1 [clientSend req]))
   \<and> (imageConfigRequest w apiBaseURL namespace repo digest s = (Inr req, s1)
       \<and> roundTrip w (sent s1) (clientSend req) = Inr resp \<and> StatusCode resp \<noteq> 200 \<longrightarrow>
         getImageConfig w apiBaseURL namespace repo digest s
           = (Inl (''image config not found (status: '' @ formatInt (StatusCode resp) @ '')''),
              sends s1 [clientSend req]))
   \<and> (fetchManifest w pkg s0 = (Next (apiBaseURL, namespace, repo, tag, manifest), s)
       \<and> Manifests manifest \<noteq> []
       \<and> getSpecificManifest w apiBaseURL namespace repo (Digest (Manifests manifest ! 0)) s
           = (Inl e, s') \<longrightarrow>
         ValidateOCI w pkg serverName s0
           = (Some (''failed to get specific manifest: '' @ e), s'))
   \<and> (resolveConfigDigest w pkg s0 = (Next (apiBaseURL, namespace, repo, tag, digest), s)
       \<and> getImageConfig w apiBaseURL namespace repo digest s = (Inl e, s') \<longrightarrow>
         ValidateOCI w pkg serverName s0
           = (Some (''failed to get image config: '' @ e), s'))
   \<and> formatInt 429 = ''429'' \<and> formatInt 404 = ''404'' \<and> formatInt 401 = ''401''"
proof (intro conjI impI)
  assume "specificManifestRequest w apiBaseURL namespace repo digest s = (Inr req, s1)
       \<and> roundTrip w (sent s1) (clientSend req) = Inr resp \<and> StatusCode resp \<noteq> 200"
  then show "getSpecificManifest w apiBaseURL namespace repo digest s
           = (Inl (''specific manifest not found (status: '' @ formatInt (StatusCode resp)
                     @ '')''),
              sends s1 [clientSend req])"
    by (simp add: getSpecificManifest_def Do_eq)
next
  assume "imageConfigRequest w apiBaseURL namespace repo digest s = (Inr req, s1)
       \<and> roundTrip w (sent s1) (clientSend req) = Inr resp \<and> StatusCode resp \<noteq> 200"
  then show "getImageConfig w apiBaseURL namespace repo digest s
           = (Inl (''image config not found (status: '' @ formatInt (StatusCode resp) @ '')''),
              sends s1 [clientSend req])"
    by (simp add: getImageConfig_def Do_eq)
next
  assume "fetchManifest w pkg s0 = (Next (apiBaseURL, namespace, repo, tag, manifest), s)
       \<and> Manifests manifest \<noteq> []
       \<and> getSpecificManifest w apiBaseURL namespace repo (Digest (Manifests manifest ! 0)) s
           = (Inl e, s')"
  then show "ValidateOCI w pkg serverName s0
           = (Some (''failed to get specific manifest: '' @ e), s')"
    by (simp add: ValidateOCI_def fetchImageConfig_def resolveConfigDigest_def)
next
  assume "resolveConfigDigest w pkg s0 = (Next (apiBaseURL, namespace, repo, tag, digest), s)
       \<and> getImageConfig w apiBaseURL namespace repo digest s = (Inl e, s')"
  then show "ValidateOCI w pkg serverName s0
           = (Some (''failed to get image config: '' @ e), s')"
    by (simp add: ValidateOCI_def fetchImageConfig_def)
qed (simp_all add: formatInt_codes)

lemma localRegistry_fetchManifest_multi429:
  "fetchManifest localRegistry (testPackage ''http://127.0.0.1:5000'' ''multi429'') start
     = (Next (''http://127.0.0.1:5000'', ''library'', ''test-image'', ''multi429'',
          \<lparr>Manifests = [\<lparr>Digest = ''sha256:limited''\<rparr>],
           OCIManifest.Config = \<lparr>Digest = []\<rparr>\<rparr>),
        sends start
          [\<lparr>Method = ''GET'',
            URL = ''http://127.0.0.1:5000/v2/library/test-image/manifests/multi429'',
            Header = [''Accept'' \<mapsto> ''application/vnd.docker.distribution.manifest.v2+json,application/vnd.oci.image.manifest.v1+json'',
                      ''User-Agent'' \<mapsto> ''MCP-Registry-Validator/1.0'']\<rparr>])"
  by (simp add: run_defs mock_defs localRegistry_def sends_def)

lemma localRegistry_resolveConfigDigest_config429:
  "resolveConfigDigest localRegistry (testPackage ''http://127.0.0.1:5000'' ''config429'') start
     = (Next (''http://127.0.0.1:5000'', ''library'', ''test-image'', ''config429'',
          ''sha256:config429''),
        sends start
          [\<lparr>Method = ''GET'',
            URL = ''http://127.0.0.1:5000/v2/library/test-image/manifests/config429'',
            Header = [''Accept'' \<mapsto> ''application/vnd.docker.distribution.manifest.v2+json,application/vnd.oci.image.manifest.v1+json'',
                      ''User-Agent'' \<mapsto> ''MCP-Registry-Validator/1.0'']\<rparr>])"
  by (simp add: run_defs mock_defs localRegistry_def sends_def)

theorem later_fetches_fail_on_any_status_witness:
  "fst (ValidateOCI localRegistry (testPackage ''http://127.0.0.1:5000'' ''multi429'')
          ''com.example/test-server'' start)
     = Some ''failed to get specific manifest: specific manifest not found (status: 429)''
   \<and> fst (ValidateOCI localRegistry (testPackage ''http://127.0.0.1:5000'' ''config429'')
          ''com.example/test-server'' start)
     = Some ''failed to get image config: image config not found (status: 429)''"
proof -
  let ?api = "''http://127.0.0.1:5000''"
  let ?m = "\<lparr>Method = ''GET'',
             URL = ''http://127.0.0.1:5000/v2/library/test-image/manifests/sha256:limited'',
             Header = [''Accept'' \<mapsto> ''application/vnd.oci.image.manifest.v1+json'',
                       ''User-Agent'' \<mapsto> ''MCP-Registry-Validator/1.0'']\<rparr>"
  let ?c = "\<lparr>Method = ''GET'',
             URL = ''http://127.0.0.1:5000/v2/library/test-image/blobs/sha256:config429'',
             Header = [''Accept'' \<mapsto> ''application/vnd.docker.distribution.manifest.v2+json'',
                       ''User-Agent'' \<mapsto> ''MCP-Registry-Validator/1.0'']\<rparr>"
  let ?s2 = "sends start
          [\<lparr>Method = ''GET'',
            URL = ''http://127.0.0.1:5000/v2/library/test-image/manifests/multi429'',
            Header = [''Accept'' \<mapsto> ''application/vnd.docker.distribution.manifest.v2+json,application/vnd.oci.image.manifest.v1+json'',
                      ''User-Agent'' \<mapsto> ''MCP-Registry-Validator/1.0'']\<rparr>]"
  let ?s3 = "sends start
          [\<lparr>Method = ''GET'',
            URL = ''http://127.0.0.1:5000/v2/library/test-image/manifests/config429'',
            Header = [''Accept'' \<mapsto> ''application/vnd.docker.distribution.manifest.v2+json,application/vnd.oci.image.manifest.v1+json'',
                      ''User-Agent'' \<mapsto> ''MCP-Registry-Validator/1.0'']\<rparr>]"
  have b1: "specificManifestRequest localRegistry ?api ''library'' ''test-image''
              ''sha256:limited'' ?s2 = (Inr ?m, ?s2)"
    by (simp add: run_defs mock_defs localRegistry_def)
  have b2: "imageConfigRequest localRegistry ?api ''library'' ''test-image''
              ''sha256:config429'' ?s3 = (Inr ?c, ?s3)"
    by (simp add: run_defs mock_defs localRegistry_def)
  have c1: "clientSend ?m = ?m"
    by (simp add: client_defs)
  have c2: "clientSend ?c = ?c"
    by (simp add: client_defs)
  have d1: "roundTrip localRegistry (sent ?s2) (clientSend ?m)
              = Inr \<lparr>StatusCode = 429, Body = []\<rparr>"
    by (simp add: c1 localRegistry_roundTrip HasPrefix_def dockerIoAPIBaseURL_def)
  have d2: "roundTrip localRegistry (sent ?s3) (clientSend ?c)
              = Inr \<lparr>StatusCode = 429, Body = []\<rparr>"
    by (simp add: c2 localRegistry_roundTrip HasPrefix_def dockerIoAPIBaseURL_def)
  have g1: "getSpecificManifest localRegistry ?api ''library'' ''test-image'' ''sha256:limited'' ?s2
              = (Inl ''specific manifest not found (status: 429)'', sends ?s2 [?m])"
    using later_fetches_fail_on_any_status
            [where w = localRegistry and apiBaseURL = ?api and namespace = "''library''"
               and repo = "''test-image''" and digest = "''sha256:limited''" and s = ?s2
               and req = ?m and ?s1.0 = ?s2 and resp = "\<lparr>StatusCode = 429, Body = []\<rparr>"]
          b1 d1
    by (simp add: c1)
  have g2: "getImageConfig localRegistry ?api ''library'' ''test-image'' ''sha256:config429'' ?s3
              = (Inl ''image config not found (status: 429)'', sends ?s3 [?c])"
    using later_fetches_fail_on_any_status
            [where w = localRegistry and apiBaseURL = ?api and namespace = "''library''"
               and repo = "''test-image''" and digest = "''sha256:config429''" and s = ?s3
               and req = ?c and ?s1.0 = ?s3 and resp = "\<lparr>StatusCode = 429, Body = []\<rparr>"]
          b2 d2
    by (simp add: c2)
  have v1: "ValidateOCI localRegistry (testPackage ?api ''multi429'') ''com.example/test-server''
              start
              = (Some (''failed to get specific manifest: ''
                         @ ''specific manifest not found (status: 429)''), sends ?s2 [?m])"
    using later_fetches_fail_on_any_status
            [where w = localRegistry and apiBaseURL = ?api and namespace = "''library''"
               and repo = "''test-image''" and pkg = "testPackage ?api ''multi429''"
               and ?s0.0 = start and tag = "''multi429''" and s = ?s2
               and manifest = "\<lparr>Manifests = [\<lparr>Digest = ''sha256:limited''\<rparr>],
                                OCIManifest.Config = \<lparr>Digest = []\<rparr>\<rparr>"
               and e = "''specific manifest not found (status: 429)''"
               and s' = "sends ?s2 [?m]" and serverName = "''com.example/test-server''"]
          localRegistry_fetchManifest_multi429 g1
    by simp
  have v2: "ValidateOCI localRegistry (testPackage ?api ''config429'') ''com.example/test-server''
              start
              = (Some (''failed to get image config: ''
                         @ ''image config not found (status: 429)''), sends ?s3 [?c])"
    using later_fetches_fail_on_any_status
            [where w = localRegistry and apiBaseURL = ?api and namespace = "''library''"
               and repo = "''test-image''" and pkg = "testPackage ?api ''config429''"
               and ?s0.0 = start and tag = "''config429''" and s = ?s3
               and digest = "''sha256:config429''"
               and e = "''image config not found (status: 429)''"
               and s' = "sends ?s3 [?c]" and serverName = "''com.example/test-server''"]
          localRegistry_resolveConfigDigest_config429 g2
    by simp
  show ?thesis using v1 v2 by simp
qed

section \<open>The config digest\<close>

lemma getSpecificManifest_Inr:
  assumes "getSpecificManifest w apiBaseURL namespace repo digest s = (Inr manifest, s2)"
  shows "\<exists>req. Method req = ''GET''
           \<and> URL req = apiBaseURL @ ''/v2/'' @ namespace @ ''/'' @ repo @ ''/manifests/'' @ digest
           \<and> sent s2 = sent s @ (if apiBaseURL = dockerIoAPIBaseURL
                                  then [tokenRequest namespace repo, req] else [req])
           \<and> logged s2 = logged s
           \<and> (\<exists>resp. roundTrip w (butlast (sent s2)) req = Inr resp \<and> StatusCode resp = 200
                  \<and> decodeManifest w (Body resp) = Inr manifest)"
proof -
  obtain req s1 where b: "specificManifestRequest w apiBaseURL namespace repo digest s = (Inr req, s1)"
    using assms
    by (auto simp: getSpecificManifest_def split: prod.splits sum.splits)
  have g: "s2 = sends s1 [clientSend req]
           \<and> (\<exists>resp. roundTrip w (sent s1) (clientSend req) = Inr resp \<and> StatusCode resp = 200
                  \<and> decodeManifest w (Body resp) = Inr manifest)"
    using assms b
    by (auto simp: getSpecificManifest_def Do_eq split: sum.splits if_splits)
  show ?thesis
  proof (cases "apiBaseURL = dockerIoAPIBaseURL")
    case True
    from specificManifestRequest_docker[of w namespace repo digest s req s1] b True
    have "s1 = sends s [tokenRequest namespace repo]" "Method req = ''GET''"
         "URL req = apiBaseURL @ ''/v2/'' @ namespace @ ''/'' @ repo @ ''/manifests/'' @ digest"
      by auto
    then show ?thesis using g True
      by (intro exI[of _ "clientSend req"]) (auto simp: butlast_append)
  next
    case False
    from specificManifestRequest_anonymous[OF False, of w namespace repo digest s req s1] b
    have "s1 = s" "Method req = ''GET''"
         "URL req = apiBaseURL @ ''/v2/'' @ namespace @ ''/'' @ repo @ ''/manifests/'' @ digest"
      by auto
    then show ?thesis using g False
      by (intro exI[of _ "clientSend req"]) (auto simp: butlast_append)
  qed
qed

lemma specificManifestRequest_Inl:
  assumes "specificManifestRequest w apiBaseURL namespace repo digest s = (Inl e, s1)"
  shows "s1 = s \<or> (apiBaseURL = dockerIoAPIBaseURL \<and> s1 = sends s [tokenRequest namespace repo])"
proof (cases "apiBaseURL = dockerIoAPIBaseURL")
  case True
  obtain t s' where t: "getDockerIoAuthToken w namespace repo s = (t, s')"
    by (cases "getDockerIoAuthToken w namespace repo s") auto
  have "s1 = s \<or> s1 = s'"
    using assms True t by (auto simp: specificManifestRequest_def split: sum.splits)
  then show ?thesis using getDockerIoAuthToken_sent[OF t] True by auto
next
  case False
  then show ?thesis
    using assms by (auto simp: specificManifestRequest_def split: sum.splits)
qed

lemma tokenRequest_Header: "Header (tokenRequest namespace repo) = Map.empty"
  by (simp add: tokenRequest_def)

lemma getSpecificManifest_requests:
  assumes "getSpecificManifest w apiBaseURL namespace repo digest s = (r, s2)"
  shows "\<exists>new. s2 = sends s new
           \<and> (\<forall>q\<in>set new. q = tokenRequest namespace repo
                 \<or> (Method q = ''GET''
                     \<and> URL q = apiBaseURL @ ''/v2/'' @ namespace @ ''/'' @ repo @ ''/manifests/''
                                 @ digest))
           \<and> length (filter (\<lambda>q. q \<noteq> tokenRequest namespace repo) new) \<le> 1"
proof -
  obtain b s1 where b: "specificManifestRequest w apiBaseURL namespace repo digest s = (b, s1)"
    by (cases "specificManifestRequest w apiBaseURL namespace repo digest s") auto
  show ?thesis
  proof (cases b)
    case (Inl e)
    then have "s2 = s1" using assms b by (simp add: getSpecificManifest_def)
    then have "s2 = sends s [] \<or> s2 = sends s [tokenRequest namespace repo]"
      using specificManifestRequest_Inl[of w apiBaseURL namespace repo digest s e s1] b Inl
      by auto
    then show ?thesis
    proof
      assume "s2 = sends s []"
      then show ?thesis by (intro exI[of _ "[]"]) simp
    next
      assume "s2 = sends s [tokenRequest namespace repo]"
      then show ?thesis by (intro exI[of _ "[tokenRequest namespace repo]"]) simp
    qed
  next
    case (Inr req)
    then have s2: "s2 = sends s1 [clientSend req]"
      using assms b by (auto simp: getSpecificManifest_def Do_eq split: sum.splits if_splits)
    have q: "Method req = ''GET''
           \<and> URL req = apiBaseURL @ ''/v2/'' @ namespace @ ''/'' @ repo @ ''/manifests/'' @ digest
           \<and> (s1 = s \<or> s1 = sends s [tokenRequest namespace repo])"
    proof (cases "apiBaseURL = dockerIoAPIBaseURL")
      case True
      from specificManifestRequest_docker[of w namespace repo digest s req s1] b Inr True
      show ?thesis by auto
    next
      case False
      from specificManifestRequest_anonymous[OF False, of w namespace repo digest s req s1] b Inr
      show ?thesis by auto
    qed
    then have "s2 = sends s [clientSend req]
               \<or> s2 = sends s [tokenRequest namespace repo, clientSend req]"
      using s2 by auto
    then show ?thesis
    proof
      assume "s2 = sends s [clientSend req]"
      then show ?thesis using q by (intro exI[of _ "[clientSend req]"]) simp
    next
      assume "s2 = sends s [tokenRequest namespace repo, clientSend req]"
      then show ?thesis using q
        by (intro exI[of _ "[tokenRequest namespace repo, clientSend req]"]) simp
    qed
  qed
qed

lemma localRegistry_fetchManifest_multi:
  "fetchManifest localRegistry (testPackage ''http://127.0.0.1:5000'' ''multi'') start
     = (Next (''http://127.0.0.1:5000'', ''library'', ''test-image'', ''multi'',
          \<lparr>Manifests = [\<lparr>Digest = ''sha256:amd64''\<rparr>, \<lparr>Digest = ''sha256:arm64''\<rparr>],
           OCIManifest.Config = \<lparr>Digest = []\<rparr>\<rparr>),
        sends start
          [\<lparr>Method = ''GET'',
            URL = ''http://127.0.0.1:5000/v2/library/test-image/manifests/multi'',
            Header = [''Accept'' \<mapsto> ''application/vnd.docker.distribution.manifest.v2+json,application/vnd.oci.image.manifest.v1+json'',
                      ''User-Agent'' \<mapsto> ''MCP-Registry-Validator/1.0'']\<rparr>])"
  by (simp add: run_defs mock_defs localRegistry_def sends_def)

lemma localRegistry_fetchManifest_nodigest:
  "fetchManifest localRegistry (testPackage ''http://127.0.0.1:5000'' ''nodigest'') start
     = (Next (''http://127.0.0.1:5000'', ''library'', ''test-image'', ''nodigest'',
          \<lparr>Manifests = [], OCIManifest.Config = \<lparr>Digest = []\<rparr>\<rparr>),
        sends start
          [\<lparr>Method = ''GET'',
            URL = ''http://127.0.0.1:5000/v2/library/test-image/manifests/nodigest'',
            Header = [''Accept'' \<mapsto> ''application/vnd.docker.distribution.manifest.v2+json,application/vnd.oci.image.manifest.v1+json'',
                      ''User-Agent'' \<mapsto> ''MCP-Registry-Validator/1.0'']\<rparr>])"
  by (simp add: run_defs mock_defs localRegistry_def sends_def)

lemma localRegistry_getSpecificManifest_amd64:
  "getSpecificManifest localRegistry ''http://127.0.0.1:5000'' ''library'' ''test-image''
       ''sha256:amd64'' s
     = (Inr \<lparr>Manifests = [], OCIManifest.Config = \<lparr>Digest = ''sha256:config123''\<rparr>\<rparr>,
        sends s
          [\<lparr>Method = ''GET'',
            URL = ''http://127.0.0.1:5000/v2/library/test-image/manifests/sha256:amd64'',
            Header = [''Accept'' \<mapsto> ''application/vnd.oci.image.manifest.v1+json'',
                      ''User-Agent'' \<mapsto> ''MCP-Registry-Validator/1.0'']\<rparr>])"
  by (simp add: run_defs mock_defs localRegistry_def sends_def)

text \<open>
  Claim C3. Let the top-level manifest be decoded. If its list of platform entries is
  empty, its own config digest is used and nothing is fetched. If the list is not empty,
  \<open>getSpecificManifest\<close> is called once, with the digest of the first entry: apart from
  the token request that Docker Hub's API base URL needs, at most one request is sent, a
  GET of \<open>.../manifests/\<close> followed by that digest; when the call succeeds, exactly that
  request has been sent and the config digest of the manifest it returned is used, and
  when it fails, \<open>ValidateOCI\<close> fails with its error. On either path an empty config
  digest makes \<open>ValidateOCI\<close> fail with \<open>unable to determine image config digest\<close> for
  \<open>namespace/repo:tag\<close>, and a non-empty one is what \<open>getImageConfig\<close> is called with.
\<close>

theorem config_digest_resolution:
  assumes m: "fetchManifest w pkg s = (Next (apiBaseURL, namespace, repo, tag, manifest), s2)"
  shows "(Manifests manifest = [] \<longrightarrow>
            resolveConfigDigest w pkg s
              = (if Digest (OCIManifest.Config manifest) = []
                 then Return (Some (''unable to determine image config digest for '' @ [CHR 0x27]
                                      @ namespace @ ''/'' @ repo @ '':'' @ tag @ [CHR 0x27]))
                 else Next (apiBaseURL, namespace, repo, tag,
                            Digest (OCIManifest.Config manifest)),
                 s2))
    \<and> (Manifests manifest \<noteq> []
         \<and> getSpecificManifest w apiBaseURL namespace repo (Digest (hd (Manifests manifest))) s2
             = (Inr specificManifest, s3) \<longrightarrow>
            resolveConfigDigest w pkg s
              = (if Digest (OCIManifest.Config specificManifest) = []
                 then Return (Some (''unable to determine image config digest for '' @ [CHR 0x27]
                                      @ namespace @ ''/'' @ repo @ '':'' @ tag @ [CHR 0x27]))
                 else Next (apiBaseURL, namespace, repo, tag,
                            Digest (OCIManifest.Config specificManifest)),
                 s3)
            \<and> (\<exists>req. Method req = ''GET''
                  \<and> URL req = apiBaseURL @ ''/v2/'' @ namespace @ ''/'' @ repo @ ''/manifests/''
                                 @ Digest (hd (Manifests manifest))
                  \<and> sent s3 = sent s2 @ (if apiBaseURL = dockerIoAPIBaseURL
                                          then [tokenRequest namespace repo, req] else [req])))
    \<and> (Manifests manifest \<noteq> []
         \<and> getSpecificManifest w apiBaseURL namespace repo (Digest (hd (Manifests manifest))) s2
             = (Inl e, s3) \<longrightarrow>
            resolveConfigDigest w pkg s
              = (Return (Some (''failed to get specific manifest: '' @ e)), s3))
    \<and> (Manifests manifest \<noteq> [] \<and> resolveConfigDigest w pkg s = (x, s3) \<longrightarrow>
            (\<exists>new. sent s3 = sent s2 @ new
               \<and> (\<forall>q\<in>set new. q = tokenRequest namespace repo
                     \<or> (Method q = ''GET''
                         \<and> URL q = apiBaseURL @ ''/v2/'' @ namespace @ ''/'' @ repo
                                     @ ''/manifests/'' @ Digest (hd (Manifests manifest))))
               \<and> length (filter (\<lambda>q. q \<noteq> tokenRequest namespace repo) new) \<le> 1))
    \<and> (resolveConfigDigest w pkg s = (Return (Some (''unable to determine image config digest for ''
                                      @ [CHR 0x27] @ namespace @ ''/'' @ repo @ '':'' @ tag
                                      @ [CHR 0x27])), s3) \<longrightarrow>
            ValidateOCI w pkg serverName s
              = (Some (''unable to determine image config digest for '' @ [CHR 0x27]
                         @ namespace @ ''/'' @ repo @ '':'' @ tag @ [CHR 0x27]), s3))
    \<and> (resolveConfigDigest w pkg s = (Next (apiBaseURL, namespace, repo, tag, configDigest), s3)
          \<longrightarrow>
            fetchImageConfig w pkg s
              = (case getImageConfig w apiBaseURL namespace repo configDigest s3 of
                   (Inl e, s4) \<Rightarrow> (Return (Some (''failed to get image config: '' @ e)), s4)
                 | (Inr config, s4) \<Rightarrow> (Next (namespace, repo, tag, config), s4)))"
proof (intro conjI impI)
  assume "Manifests manifest = []"
  then show "resolveConfigDigest w pkg s
              = (if Digest (OCIManifest.Config manifest) = []
                 then Return (Some (''unable to determine image config digest for '' @ [CHR 0x27]
                                      @ namespace @ ''/'' @ repo @ '':'' @ tag @ [CHR 0x27]))
                 else Next (apiBaseURL, namespace, repo, tag,
                            Digest (OCIManifest.Config manifest)),
                 s2)"
    using m by (simp add: resolveConfigDigest_def)
next
  assume h: "Manifests manifest \<noteq> []
         \<and> getSpecificManifest w apiBaseURL namespace repo (Digest (hd (Manifests manifest))) s2
             = (Inr specificManifest, s3)"
  then have z: "Manifests manifest ! 0 = hd (Manifests manifest)"
    by (simp add: hd_conv_nth)
  show "resolveConfigDigest w pkg s
              = (if Digest (OCIManifest.Config specificManifest) = []
                 then Return (Some (''unable to determine image config digest for '' @ [CHR 0x27]
                                      @ namespace @ ''/'' @ repo @ '':'' @ tag @ [CHR 0x27]))
                 else Next (apiBaseURL, namespace, repo, tag,
                            Digest (OCIManifest.Config specificManifest)),
                 s3)"
    using m h z by (simp add: resolveConfigDigest_def)
  from h getSpecificManifest_Inr[of w apiBaseURL namespace repo "Digest (hd (Manifests manifest))"
         s2 specificManifest s3]
  show "\<exists>req. Method req = ''GET''
                  \<and> URL req = apiBaseURL @ ''/v2/'' @ namespace @ ''/'' @ repo @ ''/manifests/''
                                 @ Digest (hd (Manifests manifest))
                  \<and> sent s3 = sent s2 @ (if apiBaseURL = dockerIoAPIBaseURL
                                          then [tokenRequest namespace repo, req] else [req])"
    by blast
next
  assume h: "Manifests manifest \<noteq> []
         \<and> getSpecificManifest w apiBaseURL namespace repo (Digest (hd (Manifests manifest))) s2
             = (Inl e, s3)"
  then have z: "Manifests manifest ! 0 = hd (Manifests manifest)"
    by (simp add: hd_conv_nth)
  show "resolveConfigDigest w pkg s
              = (Return (Some (''failed to get specific manifest: '' @ e)), s3)"
    using m h z by (simp add: resolveConfigDigest_def)
next
  assume h: "Manifests manifest \<noteq> [] \<and> resolveConfigDigest w pkg s = (x, s3)"
  then have z: "Manifests manifest ! 0 = hd (Manifests manifest)"
    by (simp add: hd_conv_nth)
  obtain g s' where g: "getSpecificManifest w apiBaseURL namespace repo
                          (Digest (hd (Manifests manifest))) s2 = (g, s')"
    by (cases "getSpecificManifest w apiBaseURL namespace repo
                          (Digest (hd (Manifests manifest))) s2") auto
  have "s3 = s'"
    using m h z g by (auto simp: resolveConfigDigest_def split: sum.splits if_splits)
  then show "\<exists>new. sent s3 = sent s2 @ new
               \<and> (\<forall>q\<in>set new. q = tokenRequest namespace repo
                     \<or> (Method q = ''GET''
                         \<and> URL q = apiBaseURL @ ''/v2/'' @ namespace @ ''/'' @ repo
                                     @ ''/manifests/'' @ Digest (hd (Manifests manifest))))
               \<and> length (filter (\<lambda>q. q \<noteq> tokenRequest namespace repo) new) \<le> 1"
    using getSpecificManifest_requests[OF g] by auto
next
  assume "resolveConfigDigest w pkg s = (Return (Some (''unable to determine image config digest for ''
                                      @ [CHR 0x27] @ namespace @ ''/'' @ repo @ '':'' @ tag
                                      @ [CHR 0x27])), s3)"
  then show "ValidateOCI w pkg serverName s
              = (Some (''unable to determine image config digest for '' @ [CHR 0x27]
                         @ namespace @ ''/'' @ repo @ '':'' @ tag @ [CHR 0x27]), s3)"
    by (simp add: ValidateOCI_def fetchImageConfig_def)
next
  assume "resolveConfigDigest w pkg s = (Next (apiBaseURL, namespace, repo, tag, configDigest), s3)"
  then show "fetchImageConfig w pkg s
              = (case getImageConfig w apiBaseURL namespace repo configDigest s3 of
                   (Inl e, s4) \<Rightarrow> (Return (Some (''failed to get image config: '' @ e)), s4)
                 | (Inr config, s4) \<Rightarrow> (Next (namespace, repo, tag, config), s4))"
    by (simp add: fetchImageConfig_def)
qed

theorem config_digest_resolution_witness:
  "resolveConfigDigest localRegistry (testPackage ''http://127.0.0.1:5000'' ''multi'') start
     = (Next (''http://127.0.0.1:5000'', ''library'', ''test-image'', ''multi'',
              ''sha256:config123''),
        \<lparr>sent =
           [\<lparr>Method = ''GET'',
             URL = ''http://127.0.0.1:5000/v2/library/test-image/manifests/multi'',
             Header = [''Accept'' \<mapsto> ''application/vnd.docker.distribution.manifest.v2+json,application/vnd.oci.image.manifest.v1+json'',
                       ''User-Agent'' \<mapsto> ''MCP-Registry-Validator/1.0'']\<rparr>,
            \<lparr>Method = ''GET'',
             URL = ''http://127.0.0.1:5000/v2/library/test-image/manifests/sha256:amd64'',
             Header = [''Accept'' \<mapsto> ''application/vnd.oci.image.manifest.v1+json'',
                       ''User-Agent'' \<mapsto> ''MCP-Registry-Validator/1.0'']\<rparr>],
         logged = []\<rparr>)
   \<and> fst (ValidateOCI localRegistry (testPackage ''http://127.0.0.1:5000'' ''nodigest'')
            ''com.example/test-server'' start)
       = Some (''unable to determine image config digest for '' @ [CHR 0x27]
                 @ ''library/test-image:nodigest'' @ [CHR 0x27])"
proof -
  let ?api = "''http://127.0.0.1:5000''"
  let ?s2 = "sends start
          [\<lparr>Method = ''GET'',
            URL = ''http://127.0.0.1:5000/v2/library/test-image/manifests/multi'',
            Header = [''Accept'' \<mapsto> ''application/vnd.docker.distribution.manifest.v2+json,application/vnd.oci.image.manifest.v1+json'',
                      ''User-Agent'' \<mapsto> ''MCP-Registry-Validator/1.0'']\<rparr>]"
  let ?n2 = "sends start
          [\<lparr>Method = ''GET'',
            URL = ''http://127.0.0.1:5000/v2/library/test-image/manifests/nodigest'',
            Header = [''Accept'' \<mapsto> ''application/vnd.docker.distribution.manifest.v2+json,application/vnd.oci.image.manifest.v1+json'',
                      ''User-Agent'' \<mapsto> ''MCP-Registry-Validator/1.0'']\<rparr>]"
  have a: "resolveConfigDigest localRegistry (testPackage ?api ''multi'') start
     = (Next (?api, ''library'', ''test-image'', ''multi'', ''sha256:config123''),
        sends ?s2
          [\<lparr>Method = ''GET'',
            URL = ''http://127.0.0.1:5000/v2/library/test-image/manifests/sha256:amd64'',
            Header = [''Accept'' \<mapsto> ''application/vnd.oci.image.manifest.v1+json'',
                      ''User-Agent'' \<mapsto> ''MCP-Registry-Validator/1.0'']\<rparr>])"
    using config_digest_resolution[OF localRegistry_fetchManifest_multi,
            where specificManifest =
                    "\<lparr>Manifests = [], OCIManifest.Config = \<lparr>Digest = ''sha256:config123''\<rparr>\<rparr>"
              and ?s3.0 = "sends ?s2
                [\<lparr>Method = ''GET'',
                  URL = ''http://127.0.0.1:5000/v2/library/test-image/manifests/sha256:amd64'',
                  Header = [''Accept'' \<mapsto> ''application/vnd.oci.image.manifest.v1+json'',
                            ''User-Agent'' \<mapsto> ''MCP-Registry-Validator/1.0'']\<rparr>]"]
          localRegistry_getSpecificManifest_amd64[of ?s2]
    by simp
  have b: "resolveConfigDigest localRegistry (testPackage ?api ''nodigest'') start
     = (Return (Some (''unable to determine image config digest for '' @ [CHR 0x27]
                 @ ''library'' @ ''/'' @ ''test-image'' @ '':'' @ ''nodigest'' @ [CHR 0x27])), ?n2)"
    using config_digest_resolution[OF localRegistry_fetchManifest_nodigest]
    by simp
  have c: "ValidateOCI localRegistry (testPackage ?api ''nodigest'') ''com.example/test-server''
             start
     = (Some (''unable to determine image config digest for '' @ [CHR 0x27]
                 @ ''library'' @ ''/'' @ ''test-image'' @ '':'' @ ''nodigest'' @ [CHR 0x27]), ?n2)"
    using config_digest_resolution[OF localRegistry_fetchManifest_nodigest,
            where ?s3.0 = ?n2 and serverName = "''com.example/test-server''"] b
    by simp
  show ?thesis using a c by (simp add: sends_def start_def)
qed

section \<open>The ownership label\<close>

text \<open>
  Claim C1. Let the image config be fetched. If its labels lack the key
  \<open>io.modelcontextprotocol.server.name\<close>, \<open>ValidateOCI\<close> fails with the
  \<open>missing required annotation\<close> error, whose message contains the snippet
  \<open>LABEL io.modelcontextprotocol.server.name="{serverName}"\<close>. If the key is there with
  a value other than the server name (strings are compared byte for byte), it fails with
  the \<open>ownership validation failed\<close> error, whose message quotes the expected and the
  actual value. If the value is the server name, it returns \<open>nil\<close>. On the mock
  registry the check is reached with every labels map and every server name.
\<close>

theorem label_check:
  assumes c: "fetchImageConfig w pkg s = (Next (namespace, repo, tag, config), s4)"
  shows "(Labels (Config config) ''io.modelcontextprotocol.server.name'' = None \<longrightarrow>
            ValidateOCI w pkg serverName s
              = (Some (''OCI image '' @ [CHR 0x27] @ namespace @ ''/'' @ repo @ '':'' @ tag
                         @ [CHR 0x27]
                         @ '' is missing required annotation. Add this to your Dockerfile: ''
                         @ ''LABEL io.modelcontextprotocol.server.name='' @ [CHR 0x22]
                         @ serverName @ [CHR 0x22]), s4)
            \<and> Contains (the (fst (ValidateOCI w pkg serverName s)))
                 (''LABEL io.modelcontextprotocol.server.name='' @ [CHR 0x22] @ serverName
                    @ [CHR 0x22]))
    \<and> (Labels (Config config) ''io.modelcontextprotocol.server.name'' = Some mcpName
         \<and> mcpName \<noteq> serverName \<longrightarrow>
            ValidateOCI w pkg serverName s
              = (Some (''OCI image ownership validation failed. Expected annotation ''
                         @ [CHR 0x27] @ ''io.modelcontextprotocol.server.name'' @ [CHR 0x27]
                         @ '' = '' @ [CHR 0x27] @ serverName @ [CHR 0x27] @ '', got ''
                         @ [CHR 0x27] @ mcpName @ [CHR 0x27]), s4)
            \<and> Contains (the (fst (ValidateOCI w pkg serverName s)))
                 ([CHR 0x27] @ serverName @ [CHR 0x27])
            \<and> Contains (the (fst (ValidateOCI w pkg serverName s)))
                 ([CHR 0x27] @ mcpName @ [CHR 0x27]))
    \<and> (Labels (Config config) ''io.modelcontextprotocol.server.name'' = Some serverName \<longrightarrow>
            ValidateOCI w pkg serverName s = (None, s4))"
proof (intro conjI impI)
  assume n: "Labels (Config config) ''io.modelcontextprotocol.server.name'' = None"
  then show v: "ValidateOCI w pkg serverName s
              = (Some (''OCI image '' @ [CHR 0x27] @ namespace @ ''/'' @ repo @ '':'' @ tag
                         @ [CHR 0x27]
                         @ '' is missing required annotation. Add this to your Dockerfile: ''
                         @ ''LABEL io.modelcontextprotocol.server.name='' @ [CHR 0x22]
                         @ serverName @ [CHR 0x22]), s4)"
    using c by (simp add: ValidateOCI_def)
  have "Contains ((''OCI image '' @ [CHR 0x27] @ namespace @ ''/'' @ repo @ '':'' @ tag
                         @ [CHR 0x27]
                         @ '' is missing required annotation. Add this to your Dockerfile: '')
                  @ (''LABEL io.modelcontextprotocol.server.name='' @ [CHR 0x22]
                         @ serverName @ [CHR 0x22]) @ [])
                 (''LABEL io.modelcontextprotocol.server.name='' @ [CHR 0x22] @ serverName
                    @ [CHR 0x22])"
    by (rule Contains_mid)
  then show "Contains (the (fst (ValidateOCI w pkg serverName s)))
                 (''LABEL io.modelcontextprotocol.server.name='' @ [CHR 0x22] @ serverName
                    @ [CHR 0x22])"
    by (simp add: v)
next
  assume h: "Labels (Config config) ''io.modelcontextprotocol.server.name'' = Some mcpName
         \<and> mcpName \<noteq> serverName"
  then show v: "ValidateOCI w pkg serverName s
              = (Some (''OCI image ownership validation failed. Expected annotation ''
                         @ [CHR 0x27] @ ''io.modelcontextprotocol.server.name'' @ [CHR 0x27]
                         @ '' = '' @ [CHR 0x27] @ serverName @ [CHR 0x27] @ '', got ''
                         @ [CHR 0x27] @ mcpName @ [CHR 0x27]), s4)"
    using c by (simp add: ValidateOCI_def)
  have "Contains ((''OCI image ownership validation failed. Expected annotation ''
                         @ [CHR 0x27] @ ''io.modelcontextprotocol.server.name'' @ [CHR 0x27]
                         @ '' = '') @ ([CHR 0x27] @ serverName @ [CHR 0x27]) @ ('', got ''
                         @ [CHR 0x27] @ mcpName @ [CHR 0x27]))
          ([CHR 0x27] @ serverName @ [CHR 0x27])"
    by (rule Contains_mid)
  then show "Contains (the (fst (ValidateOCI w pkg serverName s)))
                 ([CHR 0x27] @ serverName @ [CHR 0x27])"
    by (simp add: v)
  have "Contains ((''OCI image ownership validation failed. Expected annotation ''
                         @ [CHR 0x27] @ ''io.modelcontextprotocol.server.name'' @ [CHR 0x27]
                         @ '' = '' @ [CHR 0x27] @ serverName @ [CHR 0x27] @ '', got '')
                    @ ([CHR 0x27] @ mcpName @ [CHR 0x27]) @ [])
          ([CHR 0x27] @ mcpName @ [CHR 0x27])"
    by (rule Contains_mid)
  then show "Contains (the (fst (ValidateOCI w pkg serverName s)))
                 ([CHR 0x27] @ mcpName @ [CHR 0x27])"
    by (simp add: v)
next
  assume "Labels (Config config) ''io.modelcontextprotocol.server.name'' = Some serverName"
  then show "ValidateOCI w pkg serverName s = (None, s4)"
    using c by (simp add: ValidateOCI_def)
qed

lemma labelledRegistry_fetchImageConfig:
  "fetchImageConfig (labelledRegistry labels) (testPackage ''http://127.0.0.1:5000'' ''v1.0.0'')
       start
     = (Next (''library'', ''test-image'', ''v1.0.0'', \<lparr>Config = \<lparr>Labels = labels\<rparr>\<rparr>),
        \<lparr>sent =
           [\<lparr>Method = ''GET'',
             URL = ''http://127.0.0.1:5000/v2/library/test-image/manifests/v1.0.0'',
             Header = [''Accept'' \<mapsto> ''application/vnd.docker.distribution.manifest.v2+json,application/vnd.oci.image.manifest.v1+json'',
                       ''User-Agent'' \<mapsto> ''MCP-Registry-Validator/1.0'']\<rparr>,
            \<lparr>Method = ''GET'',
             URL = ''http://127.0.0.1:5000/v2/library/test-image/blobs/sha256:config123'',
             Header = [''Accept'' \<mapsto> ''application/vnd.docker.distribution.manifest.v2+json'',
                       ''User-Agent'' \<mapsto> ''MCP-Registry-Validator/1.0'']\<rparr>],
         logged = []\<rparr>)"
  by (simp add: run_defs mock_defs localRegistry_def labelledRegistry_def)

theorem label_check_witness:
  "\<forall>labels serverName.
     fst (ValidateOCI (labelledRegistry labels) (testPackage ''http://127.0.0.1:5000'' ''v1.0.0'')
            serverName start)
       = (case labels ''io.modelcontextprotocol.server.name'' of
            None \<Rightarrow>
              Some (''OCI image '' @ [CHR 0x27] @ ''library/test-image:v1.0.0'' @ [CHR 0x27]
                      @ '' is missing required annotation. Add this to your Dockerfile: ''
                      @ ''LABEL io.modelcontextprotocol.server.name='' @ [CHR 0x22]
                      @ serverName @ [CHR 0x22])
          | Some mcpName \<Rightarrow>
              if mcpName = serverName then None
              else Some (''OCI image ownership validation failed. Expected annotation ''
                           @ [CHR 0x27] @ ''io.modelcontextprotocol.server.name'' @ [CHR 0x27]
                           @ '' = '' @ [CHR 0x27] @ serverName @ [CHR 0x27] @ '', got ''
                           @ [CHR 0x27] @ mcpName @ [CHR 0x27]))"
proof (intro allI)
  fix labels :: "string \<rightharpoonup> string" and serverName :: string
  note t = label_check[OF labelledRegistry_fetchImageConfig[of labels],
             where serverName = serverName]
  show "fst (ValidateOCI (labelledRegistry labels) (testPackage ''http://127.0.0.1:5000'' ''v1.0.0'')
            serverName start)
       = (case labels ''io.modelcontextprotocol.server.name'' of
            None \<Rightarrow>
              Some (''OCI image '' @ [CHR 0x27] @ ''library/test-image:v1.0.0'' @ [CHR 0x27]
                      @ '' is missing required annotation. Add this to your Dockerfile: ''
                      @ ''LABEL io.modelcontextprotocol.server.name='' @ [CHR 0x22]
                      @ serverName @ [CHR 0x22])
          | Some mcpName \<Rightarrow>
              if mcpName = serverName then None
              else Some (''OCI image ownership validation failed. Expected annotation ''
                           @ [CHR 0x27] @ ''io.modelcontextprotocol.server.name'' @ [CHR 0x27]
                           @ '' = '' @ [CHR 0x27] @ serverName @ [CHR 0x27] @ '', got ''
                           @ [CHR 0x27] @ mcpName @ [CHR 0x27]))"
  proof (cases "labels ''io.modelcontextprotocol.server.name''")
    case None
    then show ?thesis using t by simp
  next
    case (Some mcpName)
    then show ?thesis using t[where mcpName = mcpName] by (cases "mcpName = serverName") simp_all
  qed
qed

end
